theory Spec2Isabelle
  imports Main "HOL-Library.Word" "HOL-Library.Sublist"
begin

section \<open>Values of the JavaScript runtime\<close>

text \<open>
  The module \<^verbatim>\<open>src/lib/digital_green_certificate.ts\<close> works on three kinds of data:
  strings, byte arrays (\<^verbatim>\<open>Uint8Array\<close>, \<^verbatim>\<open>Buffer\<close>) and the untyped values that the CBOR
  decoder returns (typed \<^verbatim>\<open>any\<close> in the source). A byte is an 8-bit word; a string is a
  list of characters; a decoded CBOR item is a \<open>jsval\<close>. Numbers are integers here:
  the timestamps of a CWT are epoch seconds, and floating point values are not modelled.
\<close>

type_synonym byte = "8 word"

datatype jsval =
    JUndefined
  | JNull
  | JBool bool
  | JNum int
  | JStr string
  | JBytes "byte list"
  | JArray "jsval list"
  | JMap "(jsval \<times> jsval) list"
  | JObject "(string \<times> jsval) list"
  | JTagged nat jsval

text \<open>Truthiness, as \<^verbatim>\<open>!x\<close>, \<^verbatim>\<open>x || y\<close> and \<^verbatim>\<open>x && y\<close> read it: \<^verbatim>\<open>undefined\<close>,
  \<^verbatim>\<open>null\<close>, \<^verbatim>\<open>false\<close>, \<^verbatim>\<open>0\<close> and the empty string are falsy, every object (also an
  empty byte array, array or map) is truthy.\<close>

fun truthy :: "jsval \<Rightarrow> bool" where
  "truthy JUndefined = False"
| "truthy JNull = False"
| "truthy (JBool b) = b"
| "truthy (JNum n) = (n \<noteq> 0)"
| "truthy (JStr s) = (s \<noteq> [])"
| "truthy (JBytes bs) = True"
| "truthy (JArray xs) = True"
| "truthy (JMap kvs) = True"
| "truthy (JObject kvs) = True"
| "truthy (JTagged t v) = True"

text \<open>\<^verbatim>\<open>x || null\<close>\<close>

definition or_null :: "jsval \<Rightarrow> jsval" where
  "or_null x = (if truthy x then x else JNull)"

text \<open>\<^verbatim>\<open>x || {}\<close>\<close>

definition or_empty_object :: "jsval \<Rightarrow> jsval" where
  "or_empty_object x = (if truthy x then x else JObject [])"

section \<open>The data model\<close>

text \<open>
  The health certificate body. Its type \<^verbatim>\<open>HCert\<close> lives in
  \<^verbatim>\<open>digital_green_certificate_types\<close>, which is not among the sources; the records below
  hold the fields that \<^verbatim>\<open>getCertificateInfo\<close> reads, optional where the code guards
  the read (\<^verbatim>\<open>hcert.nam.gn || ...\<close>, \<^verbatim>\<open>hcert.nam.gnt || '-'\<close>, \<^verbatim>\<open>hcert.v && ...\<close>) and
  mandatory where it does not (\<^verbatim>\<open>hcert.nam.fnt.replace\<close>, \<^verbatim>\<open>hcert.dob\<close>).
\<close>

record PersonName =
  fn :: "string option"
  fnt :: string
  gn :: "string option"
  gnt :: "string option"

record VaccinationEntry =
  dt :: string
  vp :: string
  dn :: int
  sd :: int

record TestEntry =
  sc :: string
  tr :: string

record RecoveryEntry =
  fr :: string

record HCert =
  nam :: PersonName
  dob :: string
  v :: "VaccinationEntry list option"
  t :: "TestEntry list option"
  r :: "RecoveryEntry list option"

text \<open>\<^verbatim>\<open>interface UnsafeDGC\<close>. The interface declares \<^verbatim>\<open>issuer: string | null\<close> and
  \<^verbatim>\<open>issuedAt, expiresAt: number | null\<close>, but the three fields are filled with
  \<^verbatim>\<open>cborData.get(...) || null\<close> and nothing checks their type, so they hold a \<open>jsval\<close>.\<close>

record UnsafeDGC =
  hcert :: HCert
  kid :: string
  issuer :: jsval
  issuedAt :: jsval
  expiresAt :: jsval

text \<open>\<^verbatim>\<open>interface DSC\<close>\<close>

record DSC =
  serialNumber :: string
  subject :: string
  dsc_issuer :: string
  notBefore :: string
  notAfter :: string
  signatureAlgorithm :: string
  fingerprint :: string
  signature :: string
  publicKeyAlgorithm :: string
  publicKeyFingerprint :: string
  publicKeyPem :: string

text \<open>\<^verbatim>\<open>interface DGC extends UnsafeDGC\<close>\<close>

record DGC = UnsafeDGC +
  certificate :: DSC
  code :: string

text \<open>
  What the module throws. The four subclasses of \<^verbatim>\<open>DgcError\<close> carry the unverified
  record. Everything else is a plain \<^verbatim>\<open>Error\<close> with a message; the message of the last
  one in \<^verbatim>\<open>getCertificateInfo\<close> ends with \<^verbatim>\<open>JSON.stringify(cert)\<close>, kept as the
  certificate itself. \<open>TypeError\<close> is the runtime's error for a method call on a value
  that has no such method; \<open>Thrown l\<close> is an exception coming out of the dependency
  \<open>l\<close>.
\<close>

datatype library = Base45 | Cbor | BufferLib | X509 | WebCrypto | Cosette

datatype error =
    Error string
  | ErrorWithJSON string DGC
  | DgcIssuedInFutureError UnsafeDGC
  | ExpiredDgcError UnsafeDGC
  | UnknownKidError UnsafeDGC
  | InvalidCertificateError UnsafeDGC
  | TypeError
  | Thrown library

text \<open>
  \<^verbatim>\<open>CommonCertificateInfo\<close> (declared in \<^verbatim>\<open>common_certificate_info\<close>, not among the
  sources): the object literals that \<^verbatim>\<open>getCertificateInfo\<close> returns. \<open>Date s\<close> is
  \<^verbatim>\<open>new Date(s)\<close>, left unparsed.
\<close>

datatype js_date = Date string

record CertificateSource =
  format :: string
  cert :: DGC

datatype CertificateDetails =
    VaccinationDetails (vaccination_date: js_date) (prophylactic_agent: string)
      (doses_received: int) (doses_expected: int)
  | TestDetails (test_date: js_date) (is_negative: bool)

record CommonCertificateInfo =
  cert_type :: string
  details :: CertificateDetails
  first_name :: string
  last_name :: string
  date_of_birth :: js_date
  info_code :: string
  source :: CertificateSource

section \<open>Normalisation: \<^verbatim>\<open>getCertificateInfo\<close>\<close>

text \<open>\<^verbatim>\<open>s.replace(/</g, ' ')\<close>\<close>

definition replace_fillers :: "string \<Rightarrow> string" where
  "replace_fillers s = map (\<lambda>c. if c = CHR ''<'' then CHR '' '' else c) s"

text \<open>\<^verbatim>\<open>a || b\<close> on an optional string: \<^verbatim>\<open>a\<close> when it is present and not empty.\<close>

definition str_or :: "string option \<Rightarrow> string \<Rightarrow> string" where
  "str_or a b = (case a of None \<Rightarrow> b | Some s \<Rightarrow> if s = [] then b else s)"

text \<open>\<^verbatim>\<open>if (xs && xs.length)\<close> followed by the read of \<^verbatim>\<open>xs[0]\<close>: the first entry of a
  list that is present and not empty.\<close>

definition first_entry :: "'a list option \<Rightarrow> 'a option" where
  "first_entry xs = (case xs of None \<Rightarrow> None | Some [] \<Rightarrow> None | Some (e # _) \<Rightarrow> Some e)"

definition getCertificateInfo :: "DGC \<Rightarrow> error + CommonCertificateInfo" where
  "getCertificateInfo c =
    (let h = hcert c;
         first = str_or (gn (nam h)) (replace_fillers (str_or (gnt (nam h)) ''-''));
         last = str_or (fn (nam h)) (replace_fillers (fnt (nam h)));
         common = (\<lambda>ty d. \<lparr>cert_type = ty, details = d, first_name = first, last_name = last,
                     date_of_birth = Date (dob h), info_code = code c,
                     source = \<lparr>format = ''dgc'', cert = c\<rparr>\<rparr>)
     in case first_entry (v h) of
          Some e \<Rightarrow>
            Inr (common ''vaccination'' (VaccinationDetails (Date (dt e)) (vp e) (dn e) (sd e)))
        | None \<Rightarrow>
         (case first_entry (t h) of
            Some e \<Rightarrow> Inr (common ''test'' (TestDetails (Date (sc e)) (tr e = ''260415000'')))
          | None \<Rightarrow>
           (case first_entry (r h) of
              Some e \<Rightarrow> Inr (common ''test'' (TestDetails (Date (fr e)) False))
            | None \<Rightarrow> Inl (ErrorWithJSON ''Unsupported or empty certificate: '' c))))"

section \<open>Dependencies, bundled assets and the clock\<close>

text \<open>
  The module calls eight packages (\<^verbatim>\<open>base45-ts\<close>, \<^verbatim>\<open>pako\<close>, \<^verbatim>\<open>cbor-web\<close>, \<^verbatim>\<open>buffer\<close>,
  \<^verbatim>\<open>ajv\<close>, \<^verbatim>\<open>@peculiar/x509\<close>, \<^verbatim>\<open>isomorphic-webcrypto\<close>, \<^verbatim>\<open>cosette\<close>), reads two
  bundled JSON files (\<^verbatim>\<open>DCC.combined-schema.1.3.0.json\<close>, \<^verbatim>\<open>dccCerts.json\<close>) and reads
  the clock twice. None of these is part of the sources, so each is a field of the
  environment \<open>env\<close> that every function of the module takes; a call that throws (or a
  promise that rejects) is \<open>None\<close>.
\<close>

text \<open>What the code reads of an \<^verbatim>\<open>X509Certificate\<close>; the two dates in milliseconds.\<close>

record X509Cert =
  x_serialNumber :: string
  x_subject :: string
  x_issuer :: string
  x_notBefore :: int
  x_notAfter :: int
  x_signatureAlgorithm :: string
  x_signature :: "byte list"
  x_publicKeyAlgorithm :: string

text \<open>A \<^verbatim>\<open>CryptoKey\<close> is an opaque handle.\<close>

datatype CryptoKey = CryptoKey nat

text \<open>Of an error object of the schema validator the code reads \<^verbatim>\<open>message\<close>, which
  its type declares optional. \<^verbatim>\<open>ajv.validate(DCCSchema, hcert)\<close> answers \<^verbatim>\<open>true\<close>, or
  \<^verbatim>\<open>false\<close> and leaves \<^verbatim>\<open>ajv.errors\<close> (an array, \<^verbatim>\<open>null\<close> or \<^verbatim>\<open>undefined\<close>).\<close>

record ErrorObject =
  message :: "string option"

datatype ajv_outcome = Valid | Invalid "ErrorObject list option"

text \<open>What \<^verbatim>\<open>DCCCerts[kid]\<close> reads: a PEM string that the JSON file holds under the key,
  or a member that the object inherits from \<^verbatim>\<open>Object.prototype\<close>.\<close>

datatype store_value = Pem string | PrototypeMember string

record env =
  decodeb45 :: "string \<Rightarrow> byte list option"
  inflate :: "byte list \<Rightarrow> jsval option"
  cbor_decodeFirst :: "jsval \<Rightarrow> jsval option"
  Buffer_from :: "jsval \<Rightarrow> byte list option"
  ajv_validate :: "jsval \<Rightarrow> ajv_outcome"
  as_HCert :: "jsval \<Rightarrow> HCert"
  js_less :: "jsval \<Rightarrow> jsval \<Rightarrow> bool"
  Date_now :: int
  new_Date :: int
  DCCCerts :: "string \<Rightarrow> string option"
  X509Certificate :: "store_value \<Rightarrow> X509Cert option"
  publicKey_export :: "X509Cert \<Rightarrow> CryptoKey option"
  getThumbprint :: "X509Cert \<Rightarrow> byte list option"
  publicKey_getThumbprint :: "X509Cert \<Rightarrow> byte list option"
  subtle_exportKey :: "CryptoKey \<Rightarrow> byte list option"
  toISOString :: "int \<Rightarrow> string"
  cose_verify :: "jsval \<Rightarrow> CryptoKey \<Rightarrow> bool"

text \<open>
  \<^item> \<open>as_HCert\<close> is the unchecked step from \<^verbatim>\<open>any\<close> to \<^verbatim>\<open>HCert\<close>: the record that the
    code sees when it reads the fields of a document.
  \<^item> \<open>js_less\<close> is the runtime's \<^verbatim>\<open><\<close> where an operand is not a number.
  \<^item> \<open>Date_now\<close> is \<^verbatim>\<open>Date.now()\<close> in \<^verbatim>\<open>verifyDGCClaims\<close>, \<open>new_Date\<close> is
    \<^verbatim>\<open>new Date()\<close> in \<^verbatim>\<open>findDGCPublicKey\<close>, both in milliseconds.
  \<^item> \<open>inflate\<close> is \<open>None\<close> when pako throws, and otherwise the value it returns: a byte
    array, or \<^verbatim>\<open>undefined\<close> when it reached the end of its input without an error and
    without a complete stream.
  \<^item> \<open>cose_verify\<close> is \<^verbatim>\<open>verify(rawCoseData, { key })\<close>: \<open>False\<close> when it rejects.
\<close>

section \<open>Encodings of the \<^verbatim>\<open>Buffer\<close> class\<close>

text \<open>\<^verbatim>\<open>buf.toString('base64')\<close>: the alphabet of RFC 4648, padded with \<^verbatim>\<open>=\<close>.\<close>

definition b64_alphabet :: string where
  "b64_alphabet = ''ABCDEFGHIJKLMNOPQRSTUVWXYZabcdefghijklmnopqrstuvwxyz0123456789+/''"

definition b64_digit :: "nat \<Rightarrow> char" where
  "b64_digit n = b64_alphabet ! (n mod 64)"

fun base64 :: "byte list \<Rightarrow> string" where
  "base64 (a # b # c # rest) =
     (let n = unat a * 65536 + unat b * 256 + unat c
      in b64_digit (n div 262144) # b64_digit (n div 4096) # b64_digit (n div 64)
           # b64_digit n # base64 rest)"
| "base64 [a, b] =
     (let n = unat a * 1024 + unat b * 4
      in [b64_digit (n div 4096), b64_digit (n div 64), b64_digit n, CHR ''=''])"
| "base64 [a] =
     (let n = unat a * 16
      in [b64_digit (n div 64), b64_digit n, CHR ''='', CHR ''=''])"
| "base64 [] = []"

text \<open>\<^verbatim>\<open>buf.toString('hex')\<close>\<close>

definition hex_digit :: "nat \<Rightarrow> char" where
  "hex_digit n = ''0123456789abcdef'' ! (n mod 16)"

definition hex :: "byte list \<Rightarrow> string" where
  "hex bs = concat (map (\<lambda>b. [hex_digit (unat b div 16), hex_digit (unat b)]) bs)"

text \<open>\<^verbatim>\<open>Buffer.from(x)\<close>: a copy of a byte array; any other argument is the library's
  business.\<close>

definition Buffer_from_value :: "env \<Rightarrow> jsval \<Rightarrow> byte list option" where
  "Buffer_from_value E x = (case x of JBytes bs \<Rightarrow> Some bs | _ \<Rightarrow> Buffer_from E x)"

text \<open>\<^verbatim>\<open>xs.join(sep)\<close> on strings\<close>

fun js_join :: "string \<Rightarrow> string list \<Rightarrow> string" where
  "js_join sep [] = []"
| "js_join sep [x] = x"
| "js_join sep (x # y # ys) = x @ sep @ js_join sep (y # ys)"

definition newline :: string where
  "newline = [CHR 0x0A]"

section \<open>Transport decoding: \<^verbatim>\<open>extractCoseFromQRCode\<close>\<close>

definition DGC_PREFIX :: string where
  "DGC_PREFIX = ''HC1:''"

text \<open>\<^verbatim>\<open>qrCode.replace(DGC_PREFIX, '')\<close> removes the first occurrence of the prefix, which
  is the one at the start, since the string starts with it. A failing \<^verbatim>\<open>inflate\<close> is
  caught and the bytes are kept as they are; otherwise \<^verbatim>\<open>coseData\<close> becomes whatever
  \<^verbatim>\<open>inflate\<close> returned, and that is the result, so the result is a \<open>jsval\<close>.\<close>

definition extractCoseFromQRCode :: "env \<Rightarrow> string \<Rightarrow> error + jsval" where
  "extractCoseFromQRCode E qrCode =
    (if \<not> prefix DGC_PREFIX qrCode then Inl (Error ''HCERT must start with HC1:'')
     else case decodeb45 E (drop (length DGC_PREFIX) qrCode) of
            None \<Rightarrow> Inl (Thrown Base45)
          | Some coseData \<Rightarrow>
              Inr (case inflate E coseData of
                     Some inflated \<Rightarrow> inflated
                   | None \<Rightarrow> JBytes coseData))"

section \<open>Structured decoding: \<^verbatim>\<open>unsafeDGCFromCoseData\<close>\<close>

definition COSE_HEADERS_KID :: int where
  "COSE_HEADERS_KID = 4"

definition CWT_CLAIMS_ISSUER :: int where
  "CWT_CLAIMS_ISSUER = 1"

definition CWT_CLAIMS_EXPIRATION :: int where
  "CWT_CLAIMS_EXPIRATION = 4"

definition CWT_CLAIMS_ISSUED_AT :: int where
  "CWT_CLAIMS_ISSUED_AT = 6"

definition CWT_CLAIMS_HCERT :: int where
  "CWT_CLAIMS_HCERT = - 260"

text \<open>\<^verbatim>\<open>x?.value\<close>: the content of a tagged item, the property of that name of a plain
  object, and \<^verbatim>\<open>undefined\<close> for everything that has no such property.\<close>

fun value_of :: "jsval \<Rightarrow> jsval" where
  "value_of (JTagged tg x) = x"
| "value_of (JObject kvs) = (case map_of kvs ''value'' of Some x \<Rightarrow> x | None \<Rightarrow> JUndefined)"
| "value_of x = JUndefined"

text \<open>\<^verbatim>\<open>m.get(k)\<close>: only a \<^verbatim>\<open>Map\<close> has the method; the first binding of the key counts.\<close>

fun Map_get :: "jsval \<Rightarrow> jsval \<Rightarrow> error + jsval" where
  "Map_get (JMap kvs) k = Inr (case map_of kvs k of Some x \<Rightarrow> x | None \<Rightarrow> JUndefined)"
| "Map_get m k = Inl TypeError"

text \<open>\<^verbatim>\<open>m?.get(k)\<close>\<close>

definition Map_get_opt :: "jsval \<Rightarrow> jsval \<Rightarrow> error + jsval" where
  "Map_get_opt m k = (if m = JUndefined \<or> m = JNull then Inr JUndefined else Map_get m k)"

text \<open>Lines 119 to 124: the COSE envelope. The result is \<^verbatim>\<open>[phdrsData, cosePayload]\<close>.\<close>

definition decode_cose :: "env \<Rightarrow> jsval \<Rightarrow> error + (jsval \<times> jsval)" where
  "decode_cose E rawCoseData =
    (case cbor_decodeFirst E rawCoseData of
       None \<Rightarrow> Inl (Thrown Cbor)
     | Some coseData \<Rightarrow>
        (case value_of coseData of
           JArray coseValue \<Rightarrow>
             if length coseValue \<noteq> 4
             then Inl (Error ''Unexpected COSE data. DGC is probably invalid.'')
             else Inr (coseValue ! 0, coseValue ! 2)
         | _ \<Rightarrow> Inl (Error ''Unexpected COSE data. DGC is probably invalid.'')))"

text \<open>Lines 128 to 133: the key identifier of the protected headers.\<close>

definition decode_kid :: "env \<Rightarrow> jsval \<Rightarrow> error + string" where
  "decode_kid E phdrsData =
    (case cbor_decodeFirst E phdrsData of
       None \<Rightarrow> Inl (Thrown Cbor)
     | Some phdrs \<Rightarrow>
        (case Map_get phdrs (JNum COSE_HEADERS_KID) of
           Inl e \<Rightarrow> Inl e
         | Inr rawKid \<Rightarrow>
             if \<not> truthy rawKid
             then Inl (Error ''Cannot find a KID in COSE Data. DGC is probably invalid.'')
             else (case Buffer_from_value E rawKid of
                     None \<Rightarrow> Inl (Thrown BufferLib)
                   | Some bs \<Rightarrow> Inr (base64 bs))))"

text \<open>Lines 135 to 138: the claims map and the health certificate in it,
  \<^verbatim>\<open>cborData.get(CWT_CLAIMS.HCERT)?.get(1) || {}\<close>.\<close>

definition decode_claims :: "env \<Rightarrow> jsval \<Rightarrow> error + (jsval \<times> jsval)" where
  "decode_claims E cosePayload =
    (case cbor_decodeFirst E cosePayload of
       None \<Rightarrow> Inl (Thrown Cbor)
     | Some cborData \<Rightarrow>
        (case Map_get cborData (JNum CWT_CLAIMS_HCERT) of
           Inl e \<Rightarrow> Inl e
         | Inr versions \<Rightarrow>
            (case Map_get_opt versions (JNum 1) of
               Inl e \<Rightarrow> Inl e
             | Inr body \<Rightarrow> Inr (cborData, or_empty_object body))))"

text \<open>Lines 139 to 149: schema validation. The message is
  \<^verbatim>\<open>`DGC validation failed:\n${validationErrors}.`\<close> with
  \<^verbatim>\<open>validationErrors = ajv.errors?.map((err) => err.message).join('\n')\<close>; \<^verbatim>\<open>join\<close> writes
  nothing for a message that is \<^verbatim>\<open>undefined\<close>, and the template writes \<^verbatim>\<open>undefined\<close>
  when there is no array of errors.\<close>

definition error_messages :: "ErrorObject list \<Rightarrow> string list" where
  "error_messages errs = map (\<lambda>e. case message e of None \<Rightarrow> [] | Some m \<Rightarrow> m) errs"

definition validation_failure :: "ErrorObject list option \<Rightarrow> string" where
  "validation_failure errs =
     ''DGC validation failed:'' @ newline
       @ (case errs of None \<Rightarrow> ''undefined''
          | Some es \<Rightarrow> js_join newline (error_messages es))
       @ ''.''"

definition validate_hcert :: "env \<Rightarrow> jsval \<Rightarrow> error + unit" where
  "validate_hcert E body =
    (case ajv_validate E body of
       Valid \<Rightarrow> Inr ()
     | Invalid errs \<Rightarrow> Inl (Error (validation_failure errs)))"

text \<open>Lines 151 to 157: the record returned.\<close>

definition unverified_record :: "env \<Rightarrow> jsval \<Rightarrow> jsval \<Rightarrow> string \<Rightarrow> error + UnsafeDGC" where
  "unverified_record E cborData body k =
    (case Map_get cborData (JNum CWT_CLAIMS_ISSUER) of
       Inl e \<Rightarrow> Inl e
     | Inr iss \<Rightarrow>
        (case Map_get cborData (JNum CWT_CLAIMS_ISSUED_AT) of
           Inl e \<Rightarrow> Inl e
         | Inr iat \<Rightarrow>
            (case Map_get cborData (JNum CWT_CLAIMS_EXPIRATION) of
               Inl e \<Rightarrow> Inl e
             | Inr exp \<Rightarrow>
                 Inr \<lparr>hcert = as_HCert E body, kid = k, issuer = or_null iss,
                      issuedAt = or_null iat, expiresAt = or_null exp\<rparr>)))"

definition unsafeDGCFromCoseData :: "env \<Rightarrow> jsval \<Rightarrow> error + UnsafeDGC" where
  "unsafeDGCFromCoseData E rawCoseData =
    (case decode_cose E rawCoseData of
       Inl e \<Rightarrow> Inl e
     | Inr (phdrsData, cosePayload) \<Rightarrow>
        (case decode_kid E phdrsData of
           Inl e \<Rightarrow> Inl e
         | Inr k \<Rightarrow>
            (case decode_claims E cosePayload of
               Inl e \<Rightarrow> Inl e
             | Inr (cborData, body) \<Rightarrow>
                (case validate_hcert E body of
                   Inl e \<Rightarrow> Inl e
                 | Inr _ \<Rightarrow> unverified_record E cborData body k))))"

section \<open>Claims: \<^verbatim>\<open>verifyDGCClaims\<close>\<close>

text \<open>\<^verbatim>\<open>a < b\<close>: the order of the integers on two numbers, the runtime's coercions
  otherwise.\<close>

definition js_lt :: "env \<Rightarrow> jsval \<Rightarrow> jsval \<Rightarrow> bool" where
  "js_lt E a b = (case (a, b) of (JNum x, JNum y) \<Rightarrow> x < y | _ \<Rightarrow> js_less E a b)"

text \<open>\<^verbatim>\<open>Math.floor(Date.now() / 1000)\<close>; \<open>div\<close> on the integers rounds down, as
  \<^verbatim>\<open>Math.floor\<close> does.\<close>

definition now_seconds :: "env \<Rightarrow> int" where
  "now_seconds E = Date_now E div 1000"

definition verifyDGCClaims :: "env \<Rightarrow> UnsafeDGC \<Rightarrow> error + unit" where
  "verifyDGCClaims E dgc =
    (let now = JNum (now_seconds E)
     in if issuedAt dgc \<noteq> JNull \<and> js_lt E now (issuedAt dgc)
        then Inl (DgcIssuedInFutureError dgc)
        else if expiresAt dgc \<noteq> JNull \<and> js_lt E (expiresAt dgc) now
        then Inl (ExpiredDgcError dgc)
        else Inr ())"

section \<open>The trust store and the signer's certificate: \<^verbatim>\<open>findDGCPublicKey\<close>\<close>

text \<open>
  \<^verbatim>\<open>DCCCerts\<close> is the object of a JSON file, so it inherits from \<^verbatim>\<open>Object.prototype\<close>, and
  \<^verbatim>\<open>kid in DCCCerts\<close> holds for the keys of the file and for the names of the inherited
  members alike.
\<close>

definition Object_prototype_keys :: "string list" where
  "Object_prototype_keys =
    [''constructor'', ''hasOwnProperty'', ''isPrototypeOf'', ''propertyIsEnumerable'',
     ''toLocaleString'', ''toString'', ''valueOf'', ''__proto__'', ''__defineGetter__'',
     ''__defineSetter__'', ''__lookupGetter__'', ''__lookupSetter__'']"

definition js_in :: "string \<Rightarrow> (string \<Rightarrow> string option) \<Rightarrow> bool" where
  "js_in k obj = (obj k \<noteq> None \<or> k \<in> set Object_prototype_keys)"

definition js_index :: "(string \<Rightarrow> string option) \<Rightarrow> string \<Rightarrow> store_value" where
  "js_index obj k = (case obj k of Some pem \<Rightarrow> Pem pem | None \<Rightarrow> PrototypeMember k)"

text \<open>\<^verbatim>\<open>pem.match(/.{1,64}/g)\<close>: the lines of at most 64 characters; \<^verbatim>\<open>null\<close> for the empty
  string.\<close>

function chunks64 :: "string \<Rightarrow> string list" where
  "chunks64 s = (if s = [] then [] else take 64 s # chunks64 (drop 64 s))"
  by pat_completeness auto
termination
  by (relation "measure length") auto

declare chunks64.simps [simp del]

definition exportPublicKeyToPEM :: "env \<Rightarrow> CryptoKey \<Rightarrow> error + string" where
  "exportPublicKeyToPEM E pk =
    (case subtle_exportKey E pk of
       None \<Rightarrow> Inl (Thrown WebCrypto)
     | Some spki \<Rightarrow>
        (let pem = base64 spki
         in if pem = [] then Inl TypeError
            else Inr (''-----BEGIN PUBLIC KEY-----'' @ newline
                        @ js_join newline (chunks64 pem)
                        @ newline @ ''-----END PUBLIC KEY-----'')))"

definition findDGCPublicKey :: "env \<Rightarrow> UnsafeDGC \<Rightarrow> error + (DSC \<times> CryptoKey)" where
  "findDGCPublicKey E dgc =
    (if \<not> js_in (kid dgc) (DCCCerts E) then Inl (UnknownKidError dgc)
     else case X509Certificate E (js_index (DCCCerts E) (kid dgc)) of
       None \<Rightarrow> Inl (Thrown X509)
     | Some x509cert \<Rightarrow>
      (case publicKey_export E x509cert of
         None \<Rightarrow> Inl (Thrown X509)
       | Some public_key \<Rightarrow>
        (case getThumbprint E x509cert of
           None \<Rightarrow> Inl (Thrown X509)
         | Some thumb \<Rightarrow>
          (case publicKey_getThumbprint E x509cert of
             None \<Rightarrow> Inl (Thrown X509)
           | Some key_thumb \<Rightarrow>
            (case exportPublicKeyToPEM E public_key of
               Inl e \<Rightarrow> Inl e
             | Inr pem \<Rightarrow>
                (let certificate =
                       \<lparr>serialNumber = x_serialNumber x509cert,
                        subject = x_subject x509cert,
                        dsc_issuer = x_issuer x509cert,
                        notBefore = toISOString E (x_notBefore x509cert),
                        notAfter = toISOString E (x_notAfter x509cert),
                        signatureAlgorithm = x_signatureAlgorithm x509cert,
                        fingerprint = hex thumb,
                        signature = base64 (x_signature x509cert),
                        publicKeyAlgorithm = x_publicKeyAlgorithm x509cert,
                        publicKeyFingerprint = hex key_thumb,
                        publicKeyPem = pem\<rparr>;
                     now = new_Date E
                 in if now > x_notAfter x509cert \<or> now < x_notBefore x509cert
                    then Inl (InvalidCertificateError dgc)
                    else Inr (certificate, public_key)))))))"

section \<open>Verification and the entry point: \<^verbatim>\<open>verifyDGC\<close>, \<^verbatim>\<open>parse\<close>\<close>

definition verifyDGC :: "env \<Rightarrow> UnsafeDGC \<Rightarrow> jsval \<Rightarrow> string \<Rightarrow> error + DGC" where
  "verifyDGC E dgc rawCoseData c =
    (case verifyDGCClaims E dgc of
       Inl e \<Rightarrow> Inl e
     | Inr _ \<Rightarrow>
        (case findDGCPublicKey E dgc of
           Inl e \<Rightarrow> Inl e
         | Inr (cert_data, public_key) \<Rightarrow>
             if \<not> cose_verify E rawCoseData public_key then Inl (Thrown Cosette)
             else Inr \<lparr>hcert = hcert dgc, kid = kid dgc, issuer = issuer dgc,
                       issuedAt = issuedAt dgc, expiresAt = expiresAt dgc,
                       certificate = cert_data, code = c\<rparr>))"

definition parse :: "env \<Rightarrow> string \<Rightarrow> error + CommonCertificateInfo" where
  "parse E doc =
    (case extractCoseFromQRCode E doc of
       Inl e \<Rightarrow> Inl e
     | Inr rawCoseData \<Rightarrow>
        (case unsafeDGCFromCoseData E rawCoseData of
           Inl e \<Rightarrow> Inl e
         | Inr unsafe_dgc \<Rightarrow>
            (case verifyDGC E unsafe_dgc rawCoseData doc of
               Inl e \<Rightarrow> Inl e
             | Inr dgc \<Rightarrow> getCertificateInfo dgc)))"

section \<open>The two transport codecs, for concrete documents\<close>

text \<open>
  To run the module on a concrete document, the environment needs a decoder of base 45
  and an \<^verbatim>\<open>inflate\<close>. \<open>base45_decode\<close> follows RFC 9285. \<open>inflate_stored\<close> reads the
  zlib format (RFC 1950) whose deflate blocks are all stored blocks (RFC 1951, 3.2.4),
  which is what a compressor at level 0 writes, and checks the Adler-32 sum; on any other
  input it gives \<open>None\<close>. \<open>zlib_inflate\<close> is the \<^verbatim>\<open>inflate\<close> built on it: an input of fewer
  than two bytes ends before the zlib header is complete, so nothing is returned and
  nothing is thrown; a complete stream of stored blocks gives its content; anything else
  is thrown (streams that end early after the header, and Huffman blocks, are not
  modelled).
\<close>

definition b45_alphabet :: string where
  "b45_alphabet = ''0123456789ABCDEFGHIJKLMNOPQRSTUVWXYZ $%*+-./:''"

fun position :: "char \<Rightarrow> string \<Rightarrow> int option" where
  "position c [] = None"
| "position c (x # xs) = (if c = x then Some 0 else map_option (\<lambda>i. i + 1) (position c xs))"

fun base45_digits :: "string \<Rightarrow> int list option" where
  "base45_digits [] = Some []"
| "base45_digits (c # cs) =
     (case position c b45_alphabet of
        None \<Rightarrow> None
      | Some d \<Rightarrow> map_option (\<lambda>ds. d # ds) (base45_digits cs))"

fun base45_values :: "int list \<Rightarrow> int list option" where
  "base45_values (c # d # e # rest) =
     (let n = c + 45 * d + 2025 * e
      in if n > 65535 then None
         else map_option (\<lambda>bs. n div 256 # n mod 256 # bs) (base45_values rest))"
| "base45_values [c, d] = (let n = c + 45 * d in if n > 255 then None else Some [n])"
| "base45_values [c] = None"
| "base45_values [] = Some []"

definition base45_numbers :: "string \<Rightarrow> int list option" where
  "base45_numbers s = (case base45_digits s of None \<Rightarrow> None | Some ds \<Rightarrow> base45_values ds)"

definition base45_decode :: "string \<Rightarrow> byte list option" where
  "base45_decode s = map_option (map of_int) (base45_numbers s)"

fun adler32 :: "nat \<Rightarrow> nat \<Rightarrow> byte list \<Rightarrow> nat" where
  "adler32 a b [] = b * 65536 + a"
| "adler32 a b (x # xs) =
     (let a' = (a + unat x) mod 65521 in adler32 a' ((b + a') mod 65521) xs)"

fun stored_blocks :: "byte list \<Rightarrow> (byte list \<times> byte list) option" where
  "stored_blocks (hdr # l0 # l1 # n0 # n1 # rest) =
     (let len = unat l0 + 256 * unat l1; nlen = unat n0 + 256 * unat n1
      in if (unat hdr div 2) mod 4 \<noteq> 0 \<or> len + nlen \<noteq> 65535 \<or> length rest < len then None
         else if unat hdr mod 2 = 1 then Some (take len rest, drop len rest)
         else (case stored_blocks (drop len rest) of
                 None \<Rightarrow> None
               | Some (out, trailer) \<Rightarrow> Some (take len rest @ out, trailer)))"
| "stored_blocks bs = None"

definition inflate_stored :: "byte list \<Rightarrow> byte list option" where
  "inflate_stored bs =
    (case bs of
       cmf # flg # body \<Rightarrow>
         if unat cmf mod 16 \<noteq> 8 \<or> unat cmf div 16 > 7
            \<or> (unat cmf * 256 + unat flg) mod 31 \<noteq> 0 \<or> (unat flg div 32) mod 2 \<noteq> 0
         then None
         else (case stored_blocks body of
                 Some (out, [s3, s2, s1, s0]) \<Rightarrow>
                   if adler32 1 0 out
                        = ((unat s3 * 256 + unat s2) * 256 + unat s1) * 256 + unat s0
                   then Some out else None
               | _ \<Rightarrow> None)
     | _ \<Rightarrow> None)"

definition zlib_inflate :: "byte list \<Rightarrow> jsval option" where
  "zlib_inflate bs =
     (if length bs < 2 then Some JUndefined else map_option JBytes (inflate_stored bs))"

text \<open>The matching encoders: base 45 after RFC 9285, and the zlib stream of stored blocks
  that a compressor at level 0 writes.\<close>

definition b45_char :: "nat \<Rightarrow> char" where
  "b45_char n = b45_alphabet ! (n mod 45)"

fun base45_encode :: "byte list \<Rightarrow> string" where
  "base45_encode (a # b # rest) =
     (let n = unat a * 256 + unat b
      in b45_char n # b45_char (n div 45) # b45_char (n div 2025) # base45_encode rest)"
| "base45_encode [a] = [b45_char (unat a), b45_char (unat a div 45)]"
| "base45_encode [] = []"

function deflate_blocks :: "byte list \<Rightarrow> byte list" where
  "deflate_blocks bs =
     (if length bs \<le> 65535
      then [0x01, of_nat (length bs mod 256), of_nat (length bs div 256),
            of_nat ((65535 - length bs) mod 256), of_nat ((65535 - length bs) div 256)] @ bs
      else [0x00, 0xFF, 0xFF, 0x00, 0x00] @ take 65535 bs @ deflate_blocks (drop 65535 bs))"
  by pat_completeness auto
termination
  by (relation "measure length") auto

declare deflate_blocks.simps [simp del]

definition deflate_stored :: "byte list \<Rightarrow> byte list" where
  "deflate_stored bs =
     (let sum = adler32 1 0 bs
      in [0x78, 0x01] @ deflate_blocks bs
           @ [of_nat (sum div 16777216), of_nat (sum div 65536 mod 256),
              of_nat (sum div 256 mod 256), of_nat (sum mod 256)])"

section \<open>The order of the stages, as two flat pipelines\<close>

text \<open>
  \<open>spec_order_parse\<close> runs the stages in the order of the specification's control
  flow: transport decoding, structured payload decoding, key identifier, trust store
  lookup (with the validity window of the certificate found), signature verification,
  claims validation, schema validation, normalisation. \<open>code_order_parse\<close> runs the same
  stages in the order in which \<^verbatim>\<open>parse\<close>, \<^verbatim>\<open>unsafeDGCFromCoseData\<close> and \<^verbatim>\<open>verifyDGC\<close> reach
  them. In both, the first stage that fails ends the run with its error.
\<close>

definition spec_order_parse :: "env \<Rightarrow> string \<Rightarrow> error + CommonCertificateInfo" where
  "spec_order_parse E doc =
    (case extractCoseFromQRCode E doc of Inl e \<Rightarrow> Inl e | Inr rawCoseData \<Rightarrow>
    (case decode_cose E rawCoseData of Inl e \<Rightarrow> Inl e | Inr (phdrsData, cosePayload) \<Rightarrow>
    (case decode_claims E cosePayload of Inl e \<Rightarrow> Inl e | Inr (cborData, body) \<Rightarrow>
    (case decode_kid E phdrsData of Inl e \<Rightarrow> Inl e | Inr k \<Rightarrow>
    (case unverified_record E cborData body k of Inl e \<Rightarrow> Inl e | Inr dgc \<Rightarrow>
    (case findDGCPublicKey E dgc of Inl e \<Rightarrow> Inl e | Inr (cert_data, public_key) \<Rightarrow>
    (if \<not> cose_verify E rawCoseData public_key then Inl (Thrown Cosette) else
    (case verifyDGCClaims E dgc of Inl e \<Rightarrow> Inl e | Inr _ \<Rightarrow>
    (case validate_hcert E body of Inl e \<Rightarrow> Inl e | Inr _ \<Rightarrow>
     getCertificateInfo
       \<lparr>hcert = hcert dgc, kid = kid dgc, issuer = issuer dgc, issuedAt = issuedAt dgc,
        expiresAt = expiresAt dgc, certificate = cert_data, code = doc\<rparr>)))))))))"

definition code_order_parse :: "env \<Rightarrow> string \<Rightarrow> error + CommonCertificateInfo" where
  "code_order_parse E doc =
    (case extractCoseFromQRCode E doc of Inl e \<Rightarrow> Inl e | Inr rawCoseData \<Rightarrow>
    (case decode_cose E rawCoseData of Inl e \<Rightarrow> Inl e | Inr (phdrsData, cosePayload) \<Rightarrow>
    (case decode_kid E phdrsData of Inl e \<Rightarrow> Inl e | Inr k \<Rightarrow>
    (case decode_claims E cosePayload of Inl e \<Rightarrow> Inl e | Inr (cborData, body) \<Rightarrow>
    (case validate_hcert E body of Inl e \<Rightarrow> Inl e | Inr _ \<Rightarrow>
    (case unverified_record E cborData body k of Inl e \<Rightarrow> Inl e | Inr dgc \<Rightarrow>
    (case verifyDGCClaims E dgc of Inl e \<Rightarrow> Inl e | Inr _ \<Rightarrow>
    (case findDGCPublicKey E dgc of Inl e \<Rightarrow> Inl e | Inr (cert_data, public_key) \<Rightarrow>
    (if \<not> cose_verify E rawCoseData public_key then Inl (Thrown Cosette) else
     getCertificateInfo
       \<lparr>hcert = hcert dgc, kid = kid dgc, issuer = issuer dgc, issuedAt = issuedAt dgc,
        expiresAt = expiresAt dgc, certificate = cert_data, code = doc\<rparr>)))))))))"

section \<open>Vocabulary of the statements\<close>

text \<open>A list field that is present and not empty.\<close>

definition populated :: "'a list option \<Rightarrow> bool" where
  "populated xs = (case xs of None \<Rightarrow> False | Some l \<Rightarrow> l \<noteq> [])"

text \<open>A timestamp of the declared type \<^verbatim>\<open>number | null\<close>.\<close>

definition timestamp :: "int option \<Rightarrow> jsval" where
  "timestamp x = (case x of None \<Rightarrow> JNull | Some n \<Rightarrow> JNum n)"

text \<open>The issued-at claim is set and lies after \<open>now\<close>; the expiration claim is set and
  lies before \<open>now\<close>.\<close>

definition issued_in_future :: "int \<Rightarrow> int option \<Rightarrow> bool" where
  "issued_in_future now ia = (case ia of None \<Rightarrow> False | Some n \<Rightarrow> now < n)"

definition expired :: "int \<Rightarrow> int option \<Rightarrow> bool" where
  "expired now ea = (case ea of None \<Rightarrow> False | Some n \<Rightarrow> n < now)"

text \<open>The header value under key 4 is missing or falsy.\<close>

definition no_kid :: "(jsval \<times> jsval) list \<Rightarrow> bool" where
  "no_kid headers =
     (case map_of headers (JNum COSE_HEADERS_KID) of None \<Rightarrow> True | Some x \<Rightarrow> \<not> truthy x)"

text \<open>The current time lies in the validity window of a certificate.\<close>

definition in_window :: "int \<Rightarrow> X509Cert \<Rightarrow> bool" where
  "in_window now x = (x_notBefore x \<le> now \<and> now \<le> x_notAfter x)"

section \<open>Concrete documents\<close>

text \<open>
  Six COSE messages, written out in CBOR, with the key identifier \<^verbatim>\<open>0102030405060708\<close>
  (\<^verbatim>\<open>AQIDBAUGBwg=\<close> in base 64) in the protected headers of the first five, and an
  eight-byte signature:
  \<^item> A: a vaccination certificate issued on 2021-06-01 (1622505600) that expires on
    2022-06-01 (1654041600);
  \<^item> B: the same claims without a health certificate (claim -260 is missing);
  \<^item> C: the health certificate of A with the expiration claim 0 and no issued-at claim;
  \<^item> D: the health certificate of A with the issued-at claim 0 and no expiration claim;
  \<^item> U: the array of A without the COSE tag 18 around it;
  \<^item> N: the message B with protected headers that name no key identifier.
  \<open>docA\<close>, \<open>docB\<close> and \<open>docC\<close> are the texts of A, B and C: the prefix and the bytes in
  base 45, not compressed.
\<close>

definition phdrs_octets :: "int list" where
  "phdrs_octets =
    [0xA2, 0x01, 0x26, 0x04, 0x48, 0x01, 0x02, 0x03, 0x04, 0x05, 0x06, 0x07, 0x08]"

definition sig_octets :: "int list" where
  "sig_octets =
    [0xA0, 0xA1, 0xA2, 0xA3, 0xA4, 0xA5, 0xA6, 0xA7]"

definition hcert_octets :: "int list" where
  "hcert_octets =
    [0xA4, 0x63, 0x76, 0x65, 0x72, 0x65, 0x31, 0x2E, 0x33, 0x2E, 0x30, 0x63, 0x6E, 0x61,
     0x6D, 0xA4, 0x62, 0x66, 0x6E, 0x63, 0x44, 0x6F, 0x65, 0x63, 0x66, 0x6E, 0x74,
     0x63, 0x44, 0x4F, 0x45, 0x62, 0x67, 0x6E, 0x64, 0x4A, 0x6F, 0x68, 0x6E, 0x63,
     0x67, 0x6E, 0x74, 0x64, 0x4A, 0x4F, 0x48, 0x4E, 0x63, 0x64, 0x6F, 0x62, 0x6A,
     0x31, 0x39, 0x39, 0x30, 0x2D, 0x30, 0x31, 0x2D, 0x30, 0x31, 0x61, 0x76, 0x81,
     0xAA, 0x62, 0x74, 0x67, 0x69, 0x38, 0x34, 0x30, 0x35, 0x33, 0x39, 0x30, 0x30,
     0x36, 0x62, 0x76, 0x70, 0x6A, 0x31, 0x31, 0x31, 0x39, 0x33, 0x34, 0x39, 0x30,
     0x30, 0x37, 0x62, 0x6D, 0x70, 0x6C, 0x45, 0x55, 0x2F, 0x31, 0x2F, 0x32, 0x30,
     0x2F, 0x31, 0x35, 0x32, 0x38, 0x62, 0x6D, 0x61, 0x6D, 0x4F, 0x52, 0x47, 0x2D,
     0x31, 0x30, 0x30, 0x30, 0x33, 0x30, 0x32, 0x31, 0x35, 0x62, 0x64, 0x6E, 0x02,
     0x62, 0x73, 0x64, 0x02, 0x62, 0x64, 0x74, 0x6A, 0x32, 0x30, 0x32, 0x31, 0x2D,
     0x30, 0x36, 0x2D, 0x30, 0x31, 0x62, 0x63, 0x6F, 0x62, 0x46, 0x52, 0x62, 0x69,
     0x73, 0x64, 0x43, 0x4E, 0x41, 0x4D, 0x62, 0x63, 0x69, 0x70, 0x55, 0x52, 0x4E,
     0x3A, 0x55, 0x56, 0x43, 0x49, 0x3A, 0x30, 0x31, 0x3A, 0x46, 0x52, 0x3A, 0x58]"

definition payloadA_octets :: "int list" where
  "payloadA_octets =
    [0xA4, 0x01, 0x62, 0x46, 0x52, 0x04, 0x1A, 0x62, 0x96, 0xAC, 0x00, 0x06, 0x1A, 0x60, 0xB5,
     0x78, 0x80, 0x39, 0x01, 0x03, 0xA1, 0x01] @ hcert_octets"

definition payloadB_octets :: "int list" where
  "payloadB_octets =
    [0xA3, 0x01, 0x62, 0x46, 0x52, 0x04, 0x1A, 0x62, 0x96, 0xAC, 0x00, 0x06, 0x1A, 0x60, 0xB5,
     0x78, 0x80]"

definition payloadC_octets :: "int list" where
  "payloadC_octets =
    [0xA3, 0x01, 0x62, 0x46, 0x52, 0x04, 0x00, 0x39, 0x01, 0x03, 0xA1, 0x01] @ hcert_octets"

definition payloadD_octets :: "int list" where
  "payloadD_octets =
    [0xA3, 0x01, 0x62, 0x46, 0x52, 0x06, 0x00, 0x39, 0x01, 0x03, 0xA1, 0x01] @ hcert_octets"

definition coseA_octets :: "int list" where
  "coseA_octets =
    [0xD2, 0x84, 0x4D] @ phdrs_octets @ [0xA0, 0x58, 0xCD] @ payloadA_octets @ [0x48] @ sig_octets"

definition coseB_octets :: "int list" where
  "coseB_octets =
    [0xD2, 0x84, 0x4D] @ phdrs_octets @ [0xA0, 0x51] @ payloadB_octets @ [0x48] @ sig_octets"

definition coseC_octets :: "int list" where
  "coseC_octets =
    [0xD2, 0x84, 0x4D] @ phdrs_octets @ [0xA0, 0x58, 0xC3] @ payloadC_octets @ [0x48] @ sig_octets"

definition coseD_octets :: "int list" where
  "coseD_octets =
    [0xD2, 0x84, 0x4D] @ phdrs_octets @ [0xA0, 0x58, 0xC3] @ payloadD_octets @ [0x48]
      @ sig_octets"

definition coseU_octets :: "int list" where
  "coseU_octets =
    [0x84, 0x4D] @ phdrs_octets @ [0xA0, 0x58, 0xCD] @ payloadA_octets @ [0x48] @ sig_octets"

definition phdrsN_octets :: "int list" where
  "phdrsN_octets = [0xA1, 0x01, 0x26]"

definition coseN_octets :: "int list" where
  "coseN_octets =
    [0xD2, 0x84, 0x43] @ phdrsN_octets @ [0xA0, 0x51] @ payloadB_octets @ [0x48] @ sig_octets"

text \<open>The same as byte arrays.\<close>

definition phdrs_bytes :: "byte list" where
  "phdrs_bytes = map of_int phdrs_octets"

definition phdrsN_bytes :: "byte list" where
  "phdrsN_bytes = map of_int phdrsN_octets"

definition sig_bytes :: "byte list" where
  "sig_bytes = map of_int sig_octets"

definition payloadA_bytes :: "byte list" where
  "payloadA_bytes = map of_int payloadA_octets"

definition payloadB_bytes :: "byte list" where
  "payloadB_bytes = map of_int payloadB_octets"

definition payloadC_bytes :: "byte list" where
  "payloadC_bytes = map of_int payloadC_octets"

definition payloadD_bytes :: "byte list" where
  "payloadD_bytes = map of_int payloadD_octets"

definition coseD_bytes :: "byte list" where
  "coseD_bytes = map of_int coseD_octets"

definition coseA_bytes :: "byte list" where
  "coseA_bytes = map of_int coseA_octets"

definition coseB_bytes :: "byte list" where
  "coseB_bytes = map of_int coseB_octets"

definition coseC_bytes :: "byte list" where
  "coseC_bytes = map of_int coseC_octets"

definition coseU_bytes :: "byte list" where
  "coseU_bytes = map of_int coseU_octets"

definition coseN_bytes :: "byte list" where
  "coseN_bytes = map of_int coseN_octets"

definition docA :: string where
  "docA =
     ''HC1:RRQT 9O60GO0X507H0QS00+08CK*:P*702+8FN0%KCMXLWY07ACNAFD97TK0F90$PC5$CUZC$$5Y''
       @ ''$5TPCBEC7ZKW.CWOCW3ELPCG/DWOC/0A JC0/DKI949DMPCG/DOUC11A.+9GVC*JC1A6FA73W5Y96746''
       @ ''KECTHG4KCD3DX47B46IL6646H*6Z/E5JD%96IA74R6646307Q$D.UDRYA 96NF6L/5SW6Y57B$D% D3I''
       @ ''A4W5646946846.96XJC$+D3KC.SCXJCCWENF6OF63W59%6746WJCT3E2+8%JCKQE+M8MB8WJC$EDHZA1''
       @ ''+9LZAZM81G72A62+8-G7789NJK.UKG.KW3''"

definition docB :: string where
  "docB =
     ''HC1:RRQT 9O60GO0X507H0QS00+01CKERK3JCQGA4F372J6002F3G.MZ9G DKAPKT K33L''"

definition docC :: string where
  "docC =
     ''HC1:RRQT 9O60GO0X507H0QS00+08CK/WO*702+8YM0D97TK0F90$PC5$CUZC$$5Y$5TPCBEC7ZKW.CW''
       @ ''OCW3ELPCG/DWOC/0A JC0/DKI949DMPCG/DOUC11A.+9GVC*JC1A6FA73W5Y96746KECTHG4KCD3DX47''
       @ ''B46IL6646H*6Z/E5JD%96IA74R6646307Q$D.UDRYA 96NF6L/5SW6Y57B$D% D3IA4W5646946846.9''
       @ ''6XJC$+D3KC.SCXJCCWENF6OF63W59%6746WJCT3E2+8%JCKQE+M8MB8WJC$EDHZA1+9LZAZM81G72A62''
       @ ''+8-G7789NJK.UKG.KW3''"

text \<open>What the CBOR decoder makes of them: a tagged item, a \<^verbatim>\<open>Map\<close> for a map with integer
  keys, a plain object for a map with text keys.\<close>

definition hcertA_json :: jsval where
  "hcertA_json =
    JObject
     [(''ver'', JStr ''1.3.0''),
      (''nam'', JObject
       [(''fn'', JStr ''Doe''), (''fnt'', JStr ''DOE''), (''gn'', JStr ''John''),
        (''gnt'', JStr ''JOHN'')]),
      (''dob'', JStr ''1990-01-01''),
      (''v'', JArray [JObject
         [(''tg'', JStr ''840539006''), (''vp'', JStr ''1119349007''),
          (''mp'', JStr ''EU/1/20/1528''), (''ma'', JStr ''ORG-100030215''),
          (''dn'', JNum 2), (''sd'', JNum 2), (''dt'', JStr ''2021-06-01''),
          (''co'', JStr ''FR''), (''is'', JStr ''CNAM''),
          (''ci'', JStr ''URN:UVCI:01:FR:X'')]])]"

definition phdrs_value :: jsval where
  "phdrs_value = JMap [(JNum 1, JNum (- 7)), (JNum 4, JBytes [1, 2, 3, 4, 5, 6, 7, 8])]"

definition payloadA_value :: jsval where
  "payloadA_value =
    JMap [(JNum 1, JStr ''FR''), (JNum 4, JNum 1654041600), (JNum 6, JNum 1622505600),
          (JNum (- 260), JMap [(JNum 1, hcertA_json)])]"

definition payloadB_value :: jsval where
  "payloadB_value =
    JMap [(JNum 1, JStr ''FR''), (JNum 4, JNum 1654041600), (JNum 6, JNum 1622505600)]"

definition payloadC_value :: jsval where
  "payloadC_value =
    JMap [(JNum 1, JStr ''FR''), (JNum 4, JNum 0), (JNum (- 260), JMap [(JNum 1, hcertA_json)])]"

definition payloadD_value :: jsval where
  "payloadD_value =
    JMap [(JNum 1, JStr ''FR''), (JNum 6, JNum 0), (JNum (- 260), JMap [(JNum 1, hcertA_json)])]"

definition phdrsN_value :: jsval where
  "phdrsN_value = JMap [(JNum 1, JNum (- 7))]"

definition cose_array :: "byte list \<Rightarrow> byte list \<Rightarrow> jsval" where
  "cose_array headers payload =
     JArray [JBytes headers, JObject [], JBytes payload, JBytes sig_bytes]"

definition cbor_table :: "(jsval \<times> jsval) list" where
  "cbor_table =
    [(JBytes phdrs_bytes, phdrs_value),
     (JBytes phdrsN_bytes, phdrsN_value),
     (JBytes payloadB_bytes, payloadB_value),
     (JBytes payloadA_bytes, payloadA_value),
     (JBytes payloadC_bytes, payloadC_value),
     (JBytes payloadD_bytes, payloadD_value),
     (JBytes coseB_bytes, JTagged 18 (cose_array phdrs_bytes payloadB_bytes)),
     (JBytes coseN_bytes, JTagged 18 (cose_array phdrsN_bytes payloadB_bytes)),
     (JBytes coseA_bytes, JTagged 18 (cose_array phdrs_bytes payloadA_bytes)),
     (JBytes coseC_bytes, JTagged 18 (cose_array phdrs_bytes payloadC_bytes)),
     (JBytes coseD_bytes, JTagged 18 (cose_array phdrs_bytes payloadD_bytes)),
     (JBytes coseU_bytes, cose_array phdrs_bytes payloadA_bytes)]"

text \<open>The record that the code reads off the health certificate of A.\<close>

definition hcertA :: HCert where
  "hcertA =
    \<lparr>nam = \<lparr>fn = Some ''Doe'', fnt = ''DOE'', gn = Some ''John'', gnt = Some ''JOHN''\<rparr>,
     dob = ''1990-01-01'',
     v = Some [\<lparr>dt = ''2021-06-01'', vp = ''1119349007'', dn = 2, sd = 2\<rparr>],
     t = None, r = None\<rparr>"

definition empty_HCert :: HCert where
  "empty_HCert =
    \<lparr>nam = \<lparr>fn = None, fnt = [], gn = None, gnt = None\<rparr>, dob = [],
     v = None, t = None, r = None\<rparr>"

text \<open>The validator accepts the health certificate of A. The schema is a \<^verbatim>\<open>oneOf\<close> of three
  branches, each of which requires \<^verbatim>\<open>ver\<close>, \<^verbatim>\<open>nam\<close>, \<^verbatim>\<open>dob\<close> and one of the three lists. To the
  empty object \<^verbatim>\<open>{}\<close> of B the validator, built with its default options, answers with four
  error objects: for each branch the first property that the branch requires, and then
  the failure of the \<^verbatim>\<open>oneOf\<close> itself.\<close>

definition missing_ver :: ErrorObject where
  "missing_ver =
    \<lparr>message = Some (''must have required property '' @ [CHR 0x27] @ ''ver'' @ [CHR 0x27])\<rparr>"

definition no_match :: ErrorObject where
  "no_match = \<lparr>message = Some ''must match exactly one schema in oneOf''\<rparr>"

definition empty_object_errors :: "ErrorObject list" where
  "empty_object_errors = [missing_ver, missing_ver, missing_ver, no_match]"

definition schema_check :: "jsval \<Rightarrow> ajv_outcome" where
  "schema_check body =
     (if body = hcertA_json then Valid else Invalid (Some empty_object_errors))"

text \<open>The signer's certificate, valid from 2021-01-01 to 2023-01-01, and the trust store
  that holds it under the key identifier of the documents.\<close>

definition signer_pem :: string where
  "signer_pem = ''-----BEGIN CERTIFICATE----- DSC 01 -----END CERTIFICATE-----''"

definition signer_x509 :: X509Cert where
  "signer_x509 =
    \<lparr>x_serialNumber = ''01'', x_subject = ''CN=DSC 01, C=FR'', x_issuer = ''CN=CSCA, C=FR'',
     x_notBefore = 1609459200000, x_notAfter = 1672531200000,
     x_signatureAlgorithm = ''ECDSA'', x_signature = [0x30, 0x00],
     x_publicKeyAlgorithm = ''ECDSA''\<rparr>"

definition signer_store :: "string \<Rightarrow> string option" where
  "signer_store = [''AQIDBAUGBwg='' \<mapsto> signer_pem]"

definition empty_store :: "string \<Rightarrow> string option" where
  "empty_store = Map.empty"

text \<open>The environment of a run: the clock (in milliseconds), the trust store and the
  answer of the signature check are the arguments; the decoders are the ones above.\<close>

definition scenario :: "int \<Rightarrow> (string \<Rightarrow> string option) \<Rightarrow> bool \<Rightarrow> env" where
  "scenario now store signature_ok =
    \<lparr>decodeb45 = base45_decode,
     inflate = zlib_inflate,
     cbor_decodeFirst = map_of cbor_table,
     Buffer_from = (\<lambda>x. None),
     ajv_validate = schema_check,
     as_HCert = (\<lambda>body. if body = hcertA_json then hcertA else empty_HCert),
     js_less = (\<lambda>a b. False),
     Date_now = now,
     new_Date = now,
     DCCCerts = store,
     X509Certificate = (\<lambda>x. if x = Pem signer_pem then Some signer_x509 else None),
     publicKey_export = (\<lambda>x. Some (CryptoKey 1)),
     getThumbprint = (\<lambda>x. Some [0xAB, 0xCD]),
     publicKey_getThumbprint = (\<lambda>x. Some [0x12, 0x34]),
     subtle_exportKey = (\<lambda>k. Some [0x30, 0x59, 0x30]),
     toISOString =
       (\<lambda>ms. if ms = 1609459200000 then ''2021-01-01T00:00:00.000Z''
             else if ms = 1672531200000 then ''2023-01-01T00:00:00.000Z'' else []),
     cose_verify = (\<lambda>raw k. signature_ok)\<rparr>"

text \<open>2021-07-01 and 2023-06-01, in milliseconds.\<close>

definition july_2021 :: int where
  "july_2021 = 1625097600000"

definition june_2023 :: int where
  "june_2023 = 1685577600000"

text \<open>The unverified record of A.\<close>

definition dgcA :: UnsafeDGC where
  "dgcA =
    \<lparr>hcert = hcertA, kid = ''AQIDBAUGBwg='', issuer = JStr ''FR'',
     issuedAt = JNum 1622505600, expiresAt = JNum 1654041600\<rparr>"

text \<open>The unverified record of C and of D: both timestamps are \<^verbatim>\<open>null\<close>.\<close>

definition dgcC :: UnsafeDGC where
  "dgcC =
    \<lparr>hcert = hcertA, kid = ''AQIDBAUGBwg='', issuer = JStr ''FR'',
     issuedAt = JNull, expiresAt = JNull\<rparr>"

text \<open>The data that \<^verbatim>\<open>findDGCPublicKey\<close> exports of the signer's certificate, and a
  verified certificate with a given body.\<close>

definition signer_DSC :: DSC where
  "signer_DSC =
    \<lparr>serialNumber = ''01'', subject = ''CN=DSC 01, C=FR'', dsc_issuer = ''CN=CSCA, C=FR'',
     notBefore = ''2021-01-01T00:00:00.000Z'', notAfter = ''2023-01-01T00:00:00.000Z'',
     signatureAlgorithm = ''ECDSA'', fingerprint = ''abcd'', signature = ''MAA='',
     publicKeyAlgorithm = ''ECDSA'', publicKeyFingerprint = ''1234'',
     publicKeyPem = ''-----BEGIN PUBLIC KEY-----'' @ newline @ ''MFkw'' @ newline
       @ ''-----END PUBLIC KEY-----''\<rparr>"

definition verified :: "HCert \<Rightarrow> DGC" where
  "verified h =
    \<lparr>hcert = h, kid = ''AQIDBAUGBwg='', issuer = JStr ''FR'', issuedAt = JNum 1622505600,
     expiresAt = JNum 1654041600, certificate = signer_DSC, code = docA\<rparr>"

text \<open>A body with one recovery entry, an empty list of tests, no vaccination, no given
  name and an empty transliterated given name; the same with a test entry; and the same
  without any entry.\<close>

definition recovery_hcert :: HCert where
  "recovery_hcert =
    \<lparr>nam = \<lparr>fn = Some ''Doe'', fnt = ''DOE'', gn = None, gnt = Some []\<rparr>,
     dob = ''1990-01-01'', v = None, t = Some [], r = Some [\<lparr>fr = ''2021-03-01''\<rparr>]\<rparr>"

definition test_hcert :: HCert where
  "test_hcert = recovery_hcert\<lparr>t := Some [\<lparr>sc = ''2021-06-30T08:00:00Z'', tr = ''260415000''\<rparr>]\<rparr>"

definition unsupported_hcert :: HCert where
  "unsupported_hcert = recovery_hcert\<lparr>r := None\<rparr>"

text \<open>A body with a vaccination entry, a test entry and a recovery entry.\<close>

definition mixed_hcert :: HCert where
  "mixed_hcert = test_hcert\<lparr>v := v hcertA\<rparr>"

section \<open>The concrete documents, stage by stage\<close>

text \<open>What each stage of \<^verbatim>\<open>unsafeDGCFromCoseData\<close> makes of the concrete documents, whatever
  the clock, the trust store and the signature check of the run.\<close>

lemmas document_bytes =
  phdrs_bytes_def sig_bytes_def payloadA_bytes_def payloadB_bytes_def payloadC_bytes_def
  coseA_bytes_def coseB_bytes_def coseC_bytes_def coseU_bytes_def phdrsN_bytes_def
  coseN_bytes_def phdrs_octets_def sig_octets_def hcert_octets_def payloadA_octets_def
  payloadB_octets_def payloadC_octets_def coseA_octets_def coseB_octets_def
  coseC_octets_def coseU_octets_def phdrsN_octets_def coseN_octets_def
  payloadD_bytes_def coseD_bytes_def payloadD_octets_def coseD_octets_def

lemma cbor_phdrs: "map_of cbor_table (JBytes phdrs_bytes) = Some phdrs_value"
  by (simp add: cbor_table_def)

lemma cbor_phdrsN: "map_of cbor_table (JBytes phdrsN_bytes) = Some phdrsN_value"
  by (simp add: cbor_table_def document_bytes)

lemma cbor_coseN:
  "map_of cbor_table (JBytes coseN_bytes) = Some (JTagged 18 (cose_array phdrsN_bytes payloadB_bytes))"
  by (simp add: cbor_table_def document_bytes)

lemma cbor_payloadB: "map_of cbor_table (JBytes payloadB_bytes) = Some payloadB_value"
  by (simp add: cbor_table_def document_bytes)

lemma cbor_payloadA: "map_of cbor_table (JBytes payloadA_bytes) = Some payloadA_value"
  by (simp add: cbor_table_def document_bytes)

lemma cbor_payloadC: "map_of cbor_table (JBytes payloadC_bytes) = Some payloadC_value"
  by (simp add: cbor_table_def document_bytes)

lemma cbor_payloadD: "map_of cbor_table (JBytes payloadD_bytes) = Some payloadD_value"
  by (simp add: cbor_table_def document_bytes)

lemma cbor_coseD:
  "map_of cbor_table (JBytes coseD_bytes) = Some (JTagged 18 (cose_array phdrs_bytes payloadD_bytes))"
  by (simp add: cbor_table_def document_bytes)

lemma cbor_coseB:
  "map_of cbor_table (JBytes coseB_bytes) = Some (JTagged 18 (cose_array phdrs_bytes payloadB_bytes))"
  by (simp add: cbor_table_def document_bytes)

lemma cbor_coseA:
  "map_of cbor_table (JBytes coseA_bytes) = Some (JTagged 18 (cose_array phdrs_bytes payloadA_bytes))"
  by (simp add: cbor_table_def document_bytes)

lemma cbor_coseC:
  "map_of cbor_table (JBytes coseC_bytes) = Some (JTagged 18 (cose_array phdrs_bytes payloadC_bytes))"
  by (simp add: cbor_table_def document_bytes)

lemma cbor_coseU:
  "map_of cbor_table (JBytes coseU_bytes) = Some (cose_array phdrs_bytes payloadA_bytes)"
  by (simp add: cbor_table_def document_bytes)


lemma scenario_fields [simp]:
  "decodeb45 (scenario n s g) = base45_decode"
  "inflate (scenario n s g) = zlib_inflate"
  "cbor_decodeFirst (scenario n s g) = map_of cbor_table"
  "Buffer_from (scenario n s g) = (\<lambda>x. None)"
  "ajv_validate (scenario n s g) = schema_check"
  "Date_now (scenario n s g) = n"
  "new_Date (scenario n s g) = n"
  "DCCCerts (scenario n s g) = s"
  "cose_verify (scenario n s g) = (\<lambda>raw k. g)"
  "as_HCert (scenario n s g) = (\<lambda>body. if body = hcertA_json then hcertA else empty_HCert)"
  "js_less (scenario n s g) = (\<lambda>a b. False)"
  "X509Certificate (scenario n s g)
     = (\<lambda>x. if x = Pem signer_pem then Some signer_x509 else None)"
  "publicKey_export (scenario n s g) = (\<lambda>x. Some (CryptoKey 1))"
  "getThumbprint (scenario n s g) = (\<lambda>x. Some [0xAB, 0xCD])"
  "publicKey_getThumbprint (scenario n s g) = (\<lambda>x. Some [0x12, 0x34])"
  "subtle_exportKey (scenario n s g) = (\<lambda>k. Some [0x30, 0x59, 0x30])"
  "toISOString (scenario n s g)
     = (\<lambda>ms. if ms = 1609459200000 then ''2021-01-01T00:00:00.000Z''
             else if ms = 1672531200000 then ''2023-01-01T00:00:00.000Z'' else [])"
  by (simp_all add: scenario_def)

lemma decode_cose_A:
  "decode_cose (scenario n s g) (JBytes coseA_bytes) = Inr (JBytes phdrs_bytes, JBytes payloadA_bytes)"
  by (simp add: decode_cose_def cbor_coseA cose_array_def)

lemma decode_cose_B:
  "decode_cose (scenario n s g) (JBytes coseB_bytes) = Inr (JBytes phdrs_bytes, JBytes payloadB_bytes)"
  by (simp add: decode_cose_def cbor_coseB cose_array_def)

lemma decode_cose_C:
  "decode_cose (scenario n s g) (JBytes coseC_bytes) = Inr (JBytes phdrs_bytes, JBytes payloadC_bytes)"
  by (simp add: decode_cose_def cbor_coseC cose_array_def)

lemma decode_cose_D:
  "decode_cose (scenario n s g) (JBytes coseD_bytes) = Inr (JBytes phdrs_bytes, JBytes payloadD_bytes)"
  by (simp add: decode_cose_def cbor_coseD cose_array_def)

lemma decode_cose_N:
  "decode_cose (scenario n s g) (JBytes coseN_bytes) = Inr (JBytes phdrsN_bytes, JBytes payloadB_bytes)"
  by (simp add: decode_cose_def cbor_coseN cose_array_def)

lemma base64_kid: "base64 [1, 2, 3, 4, 5, 6, 7, 8] = ''AQIDBAUGBwg=''"
  by (simp add: b64_digit_def b64_alphabet_def Let_def)

lemma decode_kid_scenario:
  "decode_kid (scenario n s g) (JBytes phdrs_bytes) = Inr ''AQIDBAUGBwg=''"
  by (simp add: decode_kid_def cbor_phdrs phdrs_value_def COSE_HEADERS_KID_def
        Buffer_from_value_def b64_digit_def b64_alphabet_def Let_def)

lemma decode_claims_A:
  "decode_claims (scenario n s g) (JBytes payloadA_bytes) = Inr (payloadA_value, hcertA_json)"
  by (simp add: decode_claims_def cbor_payloadA payloadA_value_def CWT_CLAIMS_HCERT_def
        Map_get_opt_def or_empty_object_def hcertA_json_def)

lemma decode_claims_B:
  "decode_claims (scenario n s g) (JBytes payloadB_bytes) = Inr (payloadB_value, JObject [])"
  by (simp add: decode_claims_def cbor_payloadB payloadB_value_def CWT_CLAIMS_HCERT_def
        Map_get_opt_def or_empty_object_def)

lemma decode_claims_C:
  "decode_claims (scenario n s g) (JBytes payloadC_bytes) = Inr (payloadC_value, hcertA_json)"
  by (simp add: decode_claims_def cbor_payloadC payloadC_value_def CWT_CLAIMS_HCERT_def
        Map_get_opt_def or_empty_object_def hcertA_json_def)

lemma decode_claims_D:
  "decode_claims (scenario n s g) (JBytes payloadD_bytes) = Inr (payloadD_value, hcertA_json)"
  by (simp add: decode_claims_def cbor_payloadD payloadD_value_def CWT_CLAIMS_HCERT_def
        Map_get_opt_def or_empty_object_def hcertA_json_def)

lemma schema_check_A: "schema_check hcertA_json = Valid"
  by (simp add: schema_check_def)

lemma schema_check_empty: "schema_check (JObject []) = Invalid (Some empty_object_errors)"
  by (simp add: schema_check_def hcertA_json_def)

lemma unverified_record_A:
  "unverified_record (scenario n s g) payloadA_value hcertA_json ''AQIDBAUGBwg='' = Inr dgcA"
  by (simp add: unverified_record_def payloadA_value_def dgcA_def or_null_def
        CWT_CLAIMS_ISSUER_def CWT_CLAIMS_ISSUED_AT_def CWT_CLAIMS_EXPIRATION_def)

lemma unverified_record_C:
  "unverified_record (scenario n s g) payloadC_value hcertA_json ''AQIDBAUGBwg='' = Inr dgcC"
  by (simp add: unverified_record_def payloadC_value_def dgcC_def or_null_def
        CWT_CLAIMS_ISSUER_def CWT_CLAIMS_ISSUED_AT_def CWT_CLAIMS_EXPIRATION_def)

lemma unverified_record_D:
  "unverified_record (scenario n s g) payloadD_value hcertA_json ''AQIDBAUGBwg='' = Inr dgcC"
  by (simp add: unverified_record_def payloadD_value_def dgcC_def or_null_def
        CWT_CLAIMS_ISSUER_def CWT_CLAIMS_ISSUED_AT_def CWT_CLAIMS_EXPIRATION_def)

lemma unsafe_A: "unsafeDGCFromCoseData (scenario n s g) (JBytes coseA_bytes) = Inr dgcA"
  by (simp add: unsafeDGCFromCoseData_def decode_cose_A decode_kid_scenario decode_claims_A
        validate_hcert_def schema_check_A unverified_record_A)

lemma unsafe_C: "unsafeDGCFromCoseData (scenario n s g) (JBytes coseC_bytes) = Inr dgcC"
  by (simp add: unsafeDGCFromCoseData_def decode_cose_C decode_kid_scenario decode_claims_C
        validate_hcert_def schema_check_A unverified_record_C)

lemma unsafe_D: "unsafeDGCFromCoseData (scenario n s g) (JBytes coseD_bytes) = Inr dgcC"
  by (simp add: unsafeDGCFromCoseData_def decode_cose_D decode_kid_scenario decode_claims_D
        validate_hcert_def schema_check_A unverified_record_D)

lemma unsafe_B:
  "unsafeDGCFromCoseData (scenario n s g) (JBytes coseB_bytes)
     = Inl (Error (validation_failure (Some empty_object_errors)))"
  by (simp add: unsafeDGCFromCoseData_def decode_cose_B decode_kid_scenario decode_claims_B
        validate_hcert_def schema_check_empty)

text \<open>Transport decoding of the three texts: none is compressed.\<close>

lemma numbers_docA: "base45_numbers (drop (length DGC_PREFIX) docA) = Some coseA_octets"
  by code_simp

lemma numbers_docB: "base45_numbers (drop (length DGC_PREFIX) docB) = Some coseB_octets"
  by code_simp

lemma numbers_docC: "base45_numbers (drop (length DGC_PREFIX) docC) = Some coseC_octets"
  by code_simp

lemma prefix_docA: "prefix DGC_PREFIX docA"
  by (simp add: DGC_PREFIX_def docA_def)

lemma prefix_docB: "prefix DGC_PREFIX docB"
  by (simp add: DGC_PREFIX_def docB_def)

lemma prefix_docC: "prefix DGC_PREFIX docC"
  by (simp add: DGC_PREFIX_def docC_def)

lemma not_zlib_coseA: "zlib_inflate coseA_bytes = None"
  by (simp add: zlib_inflate_def inflate_stored_def coseA_bytes_def coseA_octets_def)

lemma not_zlib_coseB: "zlib_inflate coseB_bytes = None"
  by (simp add: zlib_inflate_def inflate_stored_def coseB_bytes_def coseB_octets_def)

lemma not_zlib_coseC: "zlib_inflate coseC_bytes = None"
  by (simp add: zlib_inflate_def inflate_stored_def coseC_bytes_def coseC_octets_def)

lemma extract_docA: "extractCoseFromQRCode (scenario n s g) docA = Inr (JBytes coseA_bytes)"
  by (simp add: extractCoseFromQRCode_def prefix_docA base45_decode_def numbers_docA
        coseA_bytes_def [symmetric] not_zlib_coseA)

lemma extract_docB: "extractCoseFromQRCode (scenario n s g) docB = Inr (JBytes coseB_bytes)"
  by (simp add: extractCoseFromQRCode_def prefix_docB base45_decode_def numbers_docB
        coseB_bytes_def [symmetric] not_zlib_coseB)

lemma extract_docC: "extractCoseFromQRCode (scenario n s g) docC = Inr (JBytes coseC_bytes)"
  by (simp add: extractCoseFromQRCode_def prefix_docC base45_decode_def numbers_docC
        coseC_bytes_def [symmetric] not_zlib_coseC)

section \<open>Transport decoding\<close>

text \<open>The decoder of base 45 inverts the encoder: every digit of the encoder is found in
  the alphabet at its own position, and two bytes are the three digits of their number
  in base 45.\<close>

lemma byte_bound: "unat (a :: byte) < 256"
  using unsigned_less [of a, where 'a = nat] by simp

lemma position_nth:
  "distinct xs \<Longrightarrow> k < length xs \<Longrightarrow> position (xs ! k) xs = Some (int k)"
proof (induction xs arbitrary: k)
  case Nil
  then show ?case by simp
next
  case (Cons x xs)
  show ?case
  proof (cases k)
    case 0
    then show ?thesis by simp
  next
    case (Suc j)
    with Cons.prems have "xs ! j \<noteq> x" and "position (xs ! j) xs = Some (int j)"
      using Cons.IH [of j] by auto
    with Suc show ?thesis by simp
  qed
qed

lemma b45_alphabet_distinct: "distinct b45_alphabet"
  by (simp add: b45_alphabet_def)

lemma b45_alphabet_length: "length b45_alphabet = 45"
  by (simp add: b45_alphabet_def)

lemma position_b45_char: "position (b45_char n) b45_alphabet = Some (int (n mod 45))"
  unfolding b45_char_def
  by (rule position_nth) (simp_all add: b45_alphabet_distinct b45_alphabet_length)

lemma base45_digits_Cons:
  "base45_digits (b45_char n # cs) = map_option (\<lambda>ds. int (n mod 45) # ds) (base45_digits cs)"
  by (simp add: position_b45_char)

lemma three_digits:
  fixes n :: nat
  assumes "n < 65536"
  shows "int (n mod 45) + 45 * int (n div 45 mod 45) + 2025 * int (n div 2025 mod 45) = int n"
proof -
  define A B C D where "A = n div 45" and "B = A div 45" and "C = A mod 45" and "D = n mod 45"
  have "n div 2025 = B"
    by (simp add: A_def B_def div_mult2_eq)
  moreover from assms have "n div 2025 < 45" by simp
  ultimately have b: "n div 2025 mod 45 = B" by simp
  have "A = 45 * B + C"
    by (simp add: B_def C_def)
  moreover have "n = 45 * A + D"
    by (simp add: A_def D_def)
  ultimately have "D + 45 * C + 2025 * B = n"
    by linarith
  then have "int (D + 45 * C + 2025 * B) = int n"
    by (rule arg_cong)
  then have "int D + 45 * int C + 2025 * int B = int n"
    by simp
  then show ?thesis
    unfolding b unfolding A_def B_def C_def D_def .
qed

lemma base45_values_three:
  assumes "n < 65536" and "base45_values ds = Some vs"
  shows "base45_values (int (n mod 45) # int (n div 45 mod 45) # int (n div 2025 mod 45) # ds)
           = Some (int n div 256 # int n mod 256 # vs)"
proof -
  have "base45_values (int (n mod 45) # int (n div 45 mod 45) # int (n div 2025 mod 45) # ds)
      = (let m = int (n mod 45) + 45 * int (n div 45 mod 45) + 2025 * int (n div 2025 mod 45)
         in if m > 65535 then None
            else map_option (\<lambda>bs. m div 256 # m mod 256 # bs) (base45_values ds))"
    by (simp only: base45_values.simps)
  also have "\<dots> = (if int n > 65535 then None
            else map_option (\<lambda>bs. int n div 256 # int n mod 256 # bs) (base45_values ds))"
    by (simp only: three_digits [OF assms(1)] Let_def)
  also from assms(1) have "\<dots> = map_option (\<lambda>bs. int n div 256 # int n mod 256 # bs) (base45_values ds)"
    by simp
  finally show ?thesis
    by (simp only: assms(2) option.map)
qed

lemma base45_values_two:
  assumes "n < 256"
  shows "base45_values [int (n mod 45), int (n div 45 mod 45)] = Some [int n]"
proof -
  from assms have "n div 45 < 45" by simp
  then have d: "n div 45 mod 45 = n div 45" by simp
  have "n mod 45 + 45 * (n div 45) = n"
    by simp
  then have "int (n mod 45 + 45 * (n div 45)) = int n"
    by (rule arg_cong)
  then have e: "int (n mod 45) + 45 * int (n div 45) = int n"
    by (simp only: of_nat_add of_nat_mult of_nat_numeral)
  have "base45_values [int (n mod 45), int (n div 45 mod 45)]
      = (let m = int (n mod 45) + 45 * int (n div 45) in if m > 255 then None else Some [m])"
    by (simp only: base45_values.simps d)
  also have "\<dots> = (if int n > 255 then None else Some [int n])"
    by (simp only: e Let_def)
  also from assms have "\<dots> = Some [int n]"
    by simp
  finally show ?thesis .
qed

lemma two_bytes:
  fixes a b :: byte
  shows "int (unat a * 256 + unat b) div 256 = uint a"
    and "int (unat a * 256 + unat b) mod 256 = uint b"
    and "unat a * 256 + unat b < 65536"
proof -
  have a: "unat a < 256" and b: "unat b < 256"
    by (rule byte_bound)+
  from b have "(unat a * 256 + unat b) div 256 = unat a" and "(unat a * 256 + unat b) mod 256 = unat b"
    by simp_all
  then have "int ((unat a * 256 + unat b) div 256) = int (unat a)"
    and "int ((unat a * 256 + unat b) mod 256) = int (unat b)"
    by simp_all
  then show "int (unat a * 256 + unat b) div 256 = uint a"
    and "int (unat a * 256 + unat b) mod 256 = uint b"
    by (simp_all only: uint_nat zdiv_int zmod_int of_nat_numeral)
  from a b show "unat a * 256 + unat b < 65536"
    by simp
qed


lemma base45_numbers_encode: "base45_numbers (base45_encode bs) = Some (map uint bs)"
proof (induction bs rule: base45_encode.induct)
  case (1 a b rest)
  define n where "n = unat a * 256 + unat b"
  from 1 obtain ds where ds: "base45_digits (base45_encode rest) = Some ds"
    and vs: "base45_values ds = Some (map uint rest)"
    unfolding base45_numbers_def by (cases "base45_digits (base45_encode rest)") simp_all
  have en: "base45_encode (a # b # rest)
      = b45_char n # b45_char (n div 45) # b45_char (n div 2025) # base45_encode rest"
    by (simp only: base45_encode.simps n_def Let_def)
  have dg: "base45_digits (base45_encode (a # b # rest))
      = Some (int (n mod 45) # int (n div 45 mod 45) # int (n div 2025 mod 45) # ds)"
    unfolding en by (simp only: base45_digits_Cons ds option.map)
  have lt: "n < 65536"
    unfolding n_def by (rule two_bytes(3))
  have vl: "base45_values (int (n mod 45) # int (n div 45 mod 45) # int (n div 2025 mod 45) # ds)
      = Some (uint a # uint b # map uint rest)"
    unfolding base45_values_three [OF lt vs] unfolding n_def by (simp only: two_bytes(1,2))
  show ?case
    unfolding base45_numbers_def dg by (simp only: option.case vl list.map)
next
  case (2 a)
  have dg: "base45_digits (base45_encode [a])
      = Some [int (unat a mod 45), int (unat a div 45 mod 45)]"
    by (simp only: base45_encode.simps base45_digits_Cons base45_digits.simps(1) option.map)
  show ?case
    unfolding base45_numbers_def dg
    by (simp only: option.case base45_values_two [OF byte_bound] list.map uint_nat)
next
  case 3
  show ?case
    by (simp only: base45_numbers_def base45_encode.simps base45_digits.simps option.case
        base45_values.simps list.map)
qed

lemma base45_round_trip: "base45_decode (base45_encode bs) = Some bs"
proof -
  have "map (word_of_int :: int \<Rightarrow> byte) (map uint bs) = bs"
    by (induction bs) simp_all
  then show ?thesis
    by (simp only: base45_decode_def base45_numbers_encode option.map)
qed

text \<open>\<open>inflate_stored\<close> inverts \<open>deflate_stored\<close>: the two length fields of a stored block
  add up to \<^verbatim>\<open>FFFF\<close>, and the Adler-32 sum fits the four bytes of the trailer.\<close>

lemma unat_byte: "x < 256 \<Longrightarrow> unat (of_nat x :: byte) = x"
  by (simp add: unat_of_nat)

lemma byte_consts:
  "unat (0x78 :: byte) = 120" "unat (0x01 :: byte) = 1" "unat (0x00 :: byte) = 0"
  "unat (0xFF :: byte) = 255"
  by simp_all

lemma adler32_bound: "a < 65521 \<Longrightarrow> b < 65521 \<Longrightarrow> adler32 a b xs < 4294967296"
proof (induction xs arbitrary: a b)
  case Nil
  then show ?case by simp
next
  case (Cons x xs)
  have "adler32 ((a + unat x) mod 65521) ((b + (a + unat x) mod 65521) mod 65521) xs < 4294967296"
    by (rule Cons.IH) simp_all
  then show ?case by (simp only: adler32.simps Let_def)
qed

lemma four_bytes:
  fixes s :: nat
  assumes "s < 4294967296"
  shows "((unat (of_nat (s div 16777216) :: byte) * 256 + unat (of_nat (s div 65536 mod 256) :: byte)) * 256
            + unat (of_nat (s div 256 mod 256) :: byte)) * 256 + unat (of_nat (s mod 256) :: byte) = s"
proof -
  from assms have "s div 16777216 < 256" by simp
  then have a: "unat (of_nat (s div 16777216) :: byte) = s div 16777216"
    by (rule unat_byte)
  have b: "unat (of_nat (s div 65536 mod 256) :: byte) = s div 65536 mod 256"
    and c: "unat (of_nat (s div 256 mod 256) :: byte) = s div 256 mod 256"
    and d: "unat (of_nat (s mod 256) :: byte) = s mod 256"
    by (rule unat_byte, simp)+
  define A B C where "A = s div 256" and "B = A div 256" and "C = B div 256"
  have e: "s div 65536 = B" "s div 16777216 = C"
    by (simp_all add: A_def B_def C_def div_mult2_eq)
  have "s = 256 * A + s mod 256" "A = 256 * B + A mod 256" "B = 256 * C + B mod 256"
    by (simp_all add: A_def B_def C_def)
  then have "16777216 * C + 65536 * (B mod 256) + 256 * (A mod 256) + s mod 256 = s"
    by linarith
  moreover have "((C * 256 + x) * 256 + y) * 256 + z = 16777216 * C + 65536 * x + 256 * y + z"
    for x y z :: nat
    by simp
  ultimately have "((C * 256 + B mod 256) * 256 + A mod 256) * 256 + s mod 256 = s"
    by (simp only:)
  then show ?thesis
    unfolding a b c d unfolding e A_def [symmetric] .
qed

lemma length_bytes:
  fixes n :: nat
  assumes "n \<le> 65535"
  shows "unat (of_nat (n mod 256) :: byte) + 256 * unat (of_nat (n div 256) :: byte) = n"
proof -
  from assms have "n div 256 < 256" by simp
  then have a: "unat (of_nat (n div 256) :: byte) = n div 256"
    by (rule unat_byte)
  have b: "unat (of_nat (n mod 256) :: byte) = n mod 256"
    by (rule unat_byte) simp
  show ?thesis
    unfolding a b by simp
qed

lemma stored_blocks_deflate: "stored_blocks (deflate_blocks bs @ trl) = Some (bs, trl)"
proof (induction bs rule: deflate_blocks.induct)
  case (1 bs)
  show ?case
  proof (cases "length bs \<le> 65535")
    case True
    define n where "n = length bs"
    have l: "unat (of_nat (n mod 256) :: byte) + 256 * unat (of_nat (n div 256) :: byte) = n"
      using True unfolding n_def by (rule length_bytes)
    have m: "unat (of_nat ((65535 - n) mod 256) :: byte)
               + 256 * unat (of_nat ((65535 - n) div 256) :: byte) = 65535 - n"
      by (rule length_bytes) simp
    have "deflate_blocks bs @ trl
        = 0x01 # of_nat (n mod 256) # of_nat (n div 256) # of_nat ((65535 - n) mod 256)
            # of_nat ((65535 - n) div 256) # (bs @ trl)"
      using True by (simp add: deflate_blocks.simps [of bs] n_def)
    then have "stored_blocks (deflate_blocks bs @ trl)
        = (if n + (65535 - n) \<noteq> 65535 \<or> length (bs @ trl) < n then None
           else Some (take n (bs @ trl), drop n (bs @ trl)))"
      by (simp only: stored_blocks.simps Let_def l m byte_consts) simp
    also from True have "\<dots> = Some (bs, trl)"
      by (simp add: n_def)
    finally show ?thesis .
  next
    case False
    have ih: "stored_blocks (deflate_blocks (drop 65535 bs) @ trl) = Some (drop 65535 bs, trl)"
      using False by (rule 1)
    define rest where "rest = take 65535 bs @ deflate_blocks (drop 65535 bs) @ trl"
    from False have r: "length rest \<ge> 65535" "drop 65535 rest = deflate_blocks (drop 65535 bs) @ trl"
      "take 65535 rest = take 65535 bs"
      by (simp_all add: rest_def)
    have k: "(255 :: nat) + 256 * 255 = 65535" "(0 :: nat) + 256 * 0 = 0"
      by simp_all
    have "deflate_blocks bs @ trl = 0x00 # 0xFF # 0xFF # 0x00 # 0x00 # rest"
      using False by (simp add: deflate_blocks.simps [of bs] rest_def)
    then have "stored_blocks (deflate_blocks bs @ trl)
        = (if length rest < 65535 then None
           else (case stored_blocks (drop 65535 rest) of
                 None \<Rightarrow> None
               | Some (out, trailer) \<Rightarrow> Some (take 65535 rest @ out, trailer)))"
      by (simp only: stored_blocks.simps Let_def byte_consts k) simp
    also from r(1) have "\<dots> = Some (bs, trl)"
      by (simp add: r(2,3) ih)
    finally show ?thesis .
  qed
qed

lemma inflate_deflate_stored: "inflate_stored (deflate_stored bs) = Some bs"
proof -
  define s where "s = adler32 1 0 bs"
  define trl :: "byte list" where "trl = [of_nat (s div 16777216), of_nat (s div 65536 mod 256),
              of_nat (s div 256 mod 256), of_nat (s mod 256)]"
  have "s < 4294967296"
    unfolding s_def by (rule adler32_bound) simp_all
  then have f: "((unat (of_nat (s div 16777216) :: byte) * 256 + unat (of_nat (s div 65536 mod 256) :: byte)) * 256
            + unat (of_nat (s div 256 mod 256) :: byte)) * 256 + unat (of_nat (s mod 256) :: byte) = s"
    by (rule four_bytes)
  have d: "deflate_stored bs = 0x78 # 0x01 # (deflate_blocks bs @ trl)"
    by (simp add: deflate_stored_def s_def trl_def Let_def)
  have h: "\<not> (unat (0x78 :: byte) mod 16 \<noteq> 8 \<or> unat (0x78 :: byte) div 16 > 7
            \<or> (unat (0x78 :: byte) * 256 + unat (0x01 :: byte)) mod 31 \<noteq> 0
            \<or> (unat (0x01 :: byte) div 32) mod 2 \<noteq> 0)"
    unfolding byte_consts by simp
  have "inflate_stored (deflate_stored bs)
      = (case stored_blocks (deflate_blocks bs @ trl) of
                 Some (out, [s3, s2, s1, s0]) \<Rightarrow>
                   if adler32 1 0 out
                        = ((unat s3 * 256 + unat s2) * 256 + unat s1) * 256 + unat s0
                   then Some out else None
               | _ \<Rightarrow> None)"
    unfolding inflate_stored_def d list.case if_not_P [OF h] ..
  also have "\<dots> = (if adler32 1 0 bs = s then Some bs else None)"
    unfolding stored_blocks_deflate trl_def by (simp only: option.case prod.case list.case f)
  also have "\<dots> = Some bs"
    by (simp add: s_def)
  finally show ?thesis .
qed

lemma zlib_round_trip: "zlib_inflate (deflate_stored bs) = Some (JBytes bs)"
proof -
  have "length (deflate_stored bs) \<ge> 2"
    by (simp add: deflate_stored_def Let_def)
  then show ?thesis
    by (simp add: zlib_inflate_def inflate_deflate_stored)
qed

lemma inflate_stored_length: "inflate_stored z = Some x \<Longrightarrow> 2 \<le> length z"
  by (cases z rule: list.exhaust [case_product list.exhaust])
     (simp_all add: inflate_stored_def split: list.splits)

lemma extract_prefixed:
  "extractCoseFromQRCode E (DGC_PREFIX @ s)
     = (case decodeb45 E s of
          None \<Rightarrow> Inl (Thrown Base45)
        | Some coseData \<Rightarrow>
            Inr (case inflate E coseData of
                   Some inflated \<Rightarrow> inflated
                 | None \<Rightarrow> JBytes coseData))"
  by (simp add: extractCoseFromQRCode_def)

text \<open>
  C9, as the code has it. Let the decoder of base 45 of the environment agree with
  RFC 9285 on every text that the RFC decodes, and let its \<^verbatim>\<open>inflate\<close> give the content of
  every zlib stream of stored blocks. Then, for every byte sequence \<open>b\<close>:
  \<^item> \<^verbatim>\<open>extractCoseFromQRCode\<close> returns \<open>b\<close> for the prefix \<^verbatim>\<open>HC1:\<close> followed by the base 45 text
    of the compressed \<open>b\<close>, for the compressor \<open>deflate_stored\<close> and for any other stream \<open>z\<close>
    that \<^verbatim>\<open>inflate\<close> turns into \<open>b\<close>;
  \<^item> for the prefix followed by the base 45 text of \<open>b\<close> itself it returns whatever
    \<^verbatim>\<open>inflate\<close> returns on \<open>b\<close>, and \<open>b\<close> when \<^verbatim>\<open>inflate\<close> throws;
  \<^item> so bytes that were not compressed come back exactly when \<^verbatim>\<open>inflate\<close> throws on them
    or returns them unchanged.
\<close>

theorem transport_round_trip:
  assumes "\<forall>s x. base45_decode s = Some x \<longrightarrow> decodeb45 E s = Some x"
    and "\<forall>z x. inflate_stored z = Some x \<longrightarrow> inflate E z = Some (JBytes x)"
  shows "extractCoseFromQRCode E (DGC_PREFIX @ base45_encode (deflate_stored b)) = Inr (JBytes b)
    \<and> (inflate E z = Some (JBytes b)
        \<longrightarrow> extractCoseFromQRCode E (DGC_PREFIX @ base45_encode z) = Inr (JBytes b))
    \<and> extractCoseFromQRCode E (DGC_PREFIX @ base45_encode b)
        = Inr (case inflate E b of Some inflated \<Rightarrow> inflated | None \<Rightarrow> JBytes b)
    \<and> (extractCoseFromQRCode E (DGC_PREFIX @ base45_encode b) = Inr (JBytes b)
        \<longleftrightarrow> inflate E b = None \<or> inflate E b = Some (JBytes b))"
proof -
  have d: "decodeb45 E (base45_encode x) = Some x" for x
    using assms(1) base45_round_trip by blast
  have i: "inflate E (deflate_stored b) = Some (JBytes b)"
    using assms(2) inflate_deflate_stored by blast
  have 1: "extractCoseFromQRCode E (DGC_PREFIX @ base45_encode (deflate_stored b)) = Inr (JBytes b)"
    by (simp add: extract_prefixed d i)
  have 2: "inflate E z = Some (JBytes b)
        \<longrightarrow> extractCoseFromQRCode E (DGC_PREFIX @ base45_encode z) = Inr (JBytes b)"
    by (simp add: extract_prefixed d)
  have 3: "extractCoseFromQRCode E (DGC_PREFIX @ base45_encode b)
        = Inr (case inflate E b of Some inflated \<Rightarrow> inflated | None \<Rightarrow> JBytes b)"
    by (simp add: extract_prefixed d)
  have 4: "extractCoseFromQRCode E (DGC_PREFIX @ base45_encode b) = Inr (JBytes b)
        \<longleftrightarrow> inflate E b = None \<or> inflate E b = Some (JBytes b)"
    unfolding 3 by (cases "inflate E b") simp_all
  from 1 2 3 4 show ?thesis
    by blast
qed

text \<open>With the two codecs of this theory, every byte sequence comes back from its
  compressed text; the two bytes \<^verbatim>\<open>42 43\<close>, which are no zlib stream, come back from their
  plain text as well.\<close>

theorem transport_round_trip_witness:
  "(\<forall>b. extractCoseFromQRCode (scenario july_2021 signer_store True)
          (DGC_PREFIX @ base45_encode (deflate_stored b)) = Inr (JBytes b))
   \<and> extractCoseFromQRCode (scenario july_2021 signer_store True)
        (DGC_PREFIX @ base45_encode [0x42, 0x43]) = Inr (JBytes [0x42, 0x43])"
proof -
  let ?S = "scenario july_2021 signer_store True"
  have a: "\<forall>s x. base45_decode s = Some x \<longrightarrow> decodeb45 ?S s = Some x"
    by simp
  have b: "\<forall>z x. inflate_stored z = Some x \<longrightarrow> inflate ?S z = Some (JBytes x)"
    using inflate_stored_length by (fastforce simp add: zlib_inflate_def)
  have "inflate ?S [0x42, 0x43] = None"
    by (simp add: zlib_inflate_def inflate_stored_def)
  with transport_round_trip [OF a b] show ?thesis
    by blast
qed

text \<open>The claim as it was stated fails twice on bytes that were not compressed. The
  twelve bytes of the zlib stream that holds the byte \<^verbatim>\<open>41\<close> come back as the single byte
  \<^verbatim>\<open>41\<close>. The single byte \<^verbatim>\<open>41\<close> is a zlib header cut short, on which \<^verbatim>\<open>inflate\<close> returns
  \<^verbatim>\<open>undefined\<close> without throwing, and \<^verbatim>\<open>undefined\<close> is what the function returns.\<close>

theorem transport_round_trip_counterexample:
  "extractCoseFromQRCode (scenario july_2021 signer_store True)
      (DGC_PREFIX @ base45_encode (deflate_stored [0x41])) = Inr (JBytes [0x41])
   \<and> deflate_stored [0x41] \<noteq> [0x41]
   \<and> extractCoseFromQRCode (scenario july_2021 signer_store True)
      (DGC_PREFIX @ base45_encode [0x41]) = Inr JUndefined"
proof -
  have "extractCoseFromQRCode (scenario july_2021 signer_store True)
      (DGC_PREFIX @ base45_encode (deflate_stored [0x41])) = Inr (JBytes [0x41])"
    by (simp add: extract_prefixed base45_round_trip zlib_round_trip)
  moreover have "deflate_stored [0x41] \<noteq> [0x41]"
    by (simp add: deflate_stored_def Let_def)
  moreover have "extractCoseFromQRCode (scenario july_2021 signer_store True)
      (DGC_PREFIX @ base45_encode [0x41]) = Inr JUndefined"
    unfolding extract_prefixed scenario_fields base45_round_trip
    by (simp add: zlib_inflate_def)
  ultimately show ?thesis
    by blast
qed

section \<open>Claims validation\<close>

lemma verifyDGCClaims_typed:
  "verifyDGCClaims E (dgc\<lparr>issuedAt := timestamp ia, expiresAt := timestamp ea\<rparr>) =
     (if issued_in_future (now_seconds E) ia
      then Inl (DgcIssuedInFutureError (dgc\<lparr>issuedAt := timestamp ia, expiresAt := timestamp ea\<rparr>))
      else if expired (now_seconds E) ea
      then Inl (ExpiredDgcError (dgc\<lparr>issuedAt := timestamp ia, expiresAt := timestamp ea\<rparr>))
      else Inr ())"
  by (cases ia; cases ea)
     (simp_all add: verifyDGCClaims_def js_lt_def timestamp_def issued_in_future_def
        expired_def Let_def)

text \<open>
  C4. On a record whose two timestamps are numbers or \<^verbatim>\<open>null\<close>, \<^verbatim>\<open>verifyDGCClaims\<close> is a
  function of the issued-at claim, the expiration claim and the current time in seconds:
  it raises \<^verbatim>\<open>DgcIssuedInFutureError\<close> exactly when the issued-at claim is set and the
  current time is before it; it raises \<^verbatim>\<open>ExpiredDgcError\<close> exactly when that is not the
  case, the expiration claim is set and it is before the current time; it succeeds
  exactly when neither holds, in particular when both claims are \<^verbatim>\<open>null\<close>; and when
  both violations hold, the error is \<^verbatim>\<open>DgcIssuedInFutureError\<close>.
\<close>

theorem claims_validation:
  "(let d = dgc\<lparr>issuedAt := timestamp ia, expiresAt := timestamp ea\<rparr>;
        now = now_seconds E;
        result = verifyDGCClaims E d
    in ((\<exists>x. result = Inl (DgcIssuedInFutureError x)) \<longleftrightarrow> issued_in_future now ia)
     \<and> ((\<exists>x. result = Inl (ExpiredDgcError x))
          \<longleftrightarrow> \<not> issued_in_future now ia \<and> expired now ea)
     \<and> (result = Inr () \<longleftrightarrow> \<not> issued_in_future now ia \<and> \<not> expired now ea)
     \<and> (issued_in_future now ia \<and> expired now ea
          \<longrightarrow> result = Inl (DgcIssuedInFutureError d))
     \<and> (ia = None \<and> ea = None \<longrightarrow> result = Inr ()))"
  unfolding Let_def verifyDGCClaims_typed
  by (auto simp: issued_in_future_def expired_def)

text \<open>At second 1000, a record issued at second 2000 that expired at second 500 violates
  both claims, and the error is the one of the issued-at claim.\<close>

theorem claims_validation_witness:
  "verifyDGCClaims (scenario 1000000 empty_store True)
     (dgcA\<lparr>issuedAt := timestamp (Some 2000), expiresAt := timestamp (Some 500)\<rparr>)
   = Inl (DgcIssuedInFutureError
       (dgcA\<lparr>issuedAt := timestamp (Some 2000), expiresAt := timestamp (Some 500)\<rparr>))
   \<and> verifyDGCClaims (scenario 1000000 empty_store True)
     (dgcA\<lparr>issuedAt := timestamp None, expiresAt := timestamp None\<rparr>) = Inr ()"
  using claims_validation [where dgc = dgcA and ia = "Some 2000" and ea = "Some 500"
      and E = "scenario 1000000 empty_store True"]
    claims_validation [where dgc = dgcA and ia = None and ea = None
      and E = "scenario 1000000 empty_store True"]
  by (simp add: Let_def issued_in_future_def expired_def now_seconds_def)

section \<open>Schema validation\<close>

text \<open>\<^verbatim>\<open>join\<close> writes the first string and then, for every later string, the separator and
  that string.\<close>

lemma js_join_concat:
  "js_join sep ms
     = (case ms of [] \<Rightarrow> [] | m # rest \<Rightarrow> m @ concat (map (\<lambda>x. sep @ x) rest))"
  by (induction sep ms rule: js_join.induct) simp_all

lemma sublist_concat:
  assumes "m \<in> set ms"
  shows "\<exists>ps ss. concat ms = ps @ m @ ss"
proof -
  from assms obtain xs ys where "ms = xs @ m # ys"
    by (auto simp: in_set_conv_decomp)
  then have "concat ms = concat xs @ m @ concat ys"
    by simp
  then show ?thesis
    by blast
qed

lemma sublist_lines:
  assumes "x \<in> set (first # rest)"
  shows "\<exists>ps ss. f first @ concat (map (\<lambda>y. sep @ f y) rest) = ps @ f x @ ss"
proof (cases "x = first")
  case True
  then have "f first @ concat (map (\<lambda>y. sep @ f y) rest)
      = [] @ f x @ concat (map (\<lambda>y. sep @ f y) rest)"
    by simp
  then show ?thesis
    by blast
next
  case False
  with assms have "sep @ f x \<in> set (map (\<lambda>y. sep @ f y) rest)"
    by auto
  then obtain ps ss where "concat (map (\<lambda>y. sep @ f y) rest) = ps @ (sep @ f x) @ ss"
    using sublist_concat by blast
  then have "f first @ concat (map (\<lambda>y. sep @ f y) rest) = (f first @ ps @ sep) @ f x @ ss"
    by simp
  then show ?thesis
    by blast
qed

text \<open>
  C5. When the stages before it succeed and the validator rejects the health
  certificate, \<^verbatim>\<open>unsafeDGCFromCoseData\<close> (and with it \<^verbatim>\<open>parse\<close>) throws an \<^verbatim>\<open>Error\<close> whose text
  is \<^verbatim>\<open>DGC validation failed:\<close>, a line break, the lines, and a full stop. The lines are
  the word \<^verbatim>\<open>undefined\<close> when the validator left no array of error objects, and otherwise
  the message of the first error object followed, for every later error object in the
  order of the array, by a line break and its message (nothing for an error object
  without a message). So the message of every error object that the validator left, not
  only of the first, is part of the text. Which violations the validator records is its
  own matter: the code builds it with the default options and reads what it left.
\<close>

theorem schema_validation_messages:
  assumes "extractCoseFromQRCode E doc = Inr rawCoseData"
    and "decode_cose E rawCoseData = Inr (phdrsData, cosePayload)"
    and "decode_kid E phdrsData = Inr k"
    and "decode_claims E cosePayload = Inr (cborData, body)"
    and "ajv_validate E body = Invalid errs"
  shows "(let line = (\<lambda>e. case message e of None \<Rightarrow> [] | Some m \<Rightarrow> m);
              lines = (case errs of
                         None \<Rightarrow> ''undefined''
                       | Some [] \<Rightarrow> []
                       | Some (first # rest) \<Rightarrow>
                           line first @ concat (map (\<lambda>e. [CHR 0x0A] @ line e) rest));
              failure = ''DGC validation failed:'' @ [CHR 0x0A] @ lines @ ''.''
          in unsafeDGCFromCoseData E rawCoseData = Inl (Error failure)
           \<and> parse E doc = Inl (Error failure)
           \<and> (\<forall>es. errs = Some es
                 \<longrightarrow> (\<forall>e \<in> set es. \<forall>m. message e = Some m \<longrightarrow> sublist m failure)))"
proof -
  define line where "line = (\<lambda>e :: ErrorObject. case message e of None \<Rightarrow> [] | Some m \<Rightarrow> m)"
  define lines where "lines = (case errs of
                         None \<Rightarrow> ''undefined''
                       | Some [] \<Rightarrow> []
                       | Some (first # rest) \<Rightarrow>
                           line first @ concat (map (\<lambda>e. [CHR 0x0A] @ line e) rest))"
  define failure where "failure = ''DGC validation failed:'' @ [CHR 0x0A] @ lines @ ''.''"
  have f: "validation_failure errs = failure"
    unfolding validation_failure_def failure_def lines_def line_def newline_def
      error_messages_def js_join_concat
    by (simp add: comp_def split: option.splits list.splits)
  have u: "unsafeDGCFromCoseData E rawCoseData = Inl (Error failure)"
    using assms by (simp add: unsafeDGCFromCoseData_def validate_hcert_def f)
  then have p: "parse E doc = Inl (Error failure)"
    using assms(1) by (simp add: parse_def)
  have s: "sublist m failure" if "errs = Some es" "e \<in> set es" "message e = Some m" for es e m
  proof -
    from that(2) obtain first rest where es: "es = first # rest"
      by (cases es) auto
    with that(2) obtain ps ss
      where "line first @ concat (map (\<lambda>y. [CHR 0x0A] @ line y) rest) = ps @ line e @ ss"
      using sublist_lines [of e first rest line "[CHR 0x0A]"] by blast
    with that(1,3) es have "failure = (''DGC validation failed:'' @ [CHR 0x0A] @ ps) @ m @ (ss @ ''.'')"
      by (simp add: failure_def lines_def line_def)
    then show ?thesis
      unfolding sublist_def by blast
  qed
  from u p s show ?thesis
    unfolding Let_def line_def [symmetric] lines_def [symmetric] failure_def [symmetric]
    by blast
qed

text \<open>Document B has no health certificate, and the validator leaves four error objects
  on the empty object. The error that \<^verbatim>\<open>parse\<close> throws has the four messages, one on each
  line, and the last of them is part of its text as the first is.\<close>

theorem schema_validation_messages_witness:
  "parse (scenario july_2021 signer_store True) docB
     = Inl (Error (''DGC validation failed:'' @ [CHR 0x0A]
          @ ''must have required property '' @ [CHR 0x27] @ ''ver'' @ [CHR 0x27] @ [CHR 0x0A]
          @ ''must have required property '' @ [CHR 0x27] @ ''ver'' @ [CHR 0x27] @ [CHR 0x0A]
          @ ''must have required property '' @ [CHR 0x27] @ ''ver'' @ [CHR 0x27] @ [CHR 0x0A]
          @ ''must match exactly one schema in oneOf'' @ ''.''))
   \<and> sublist (''must have required property '' @ [CHR 0x27] @ ''ver'' @ [CHR 0x27])
        (''DGC validation failed:'' @ [CHR 0x0A]
          @ ''must have required property '' @ [CHR 0x27] @ ''ver'' @ [CHR 0x27] @ [CHR 0x0A]
          @ ''must have required property '' @ [CHR 0x27] @ ''ver'' @ [CHR 0x27] @ [CHR 0x0A]
          @ ''must have required property '' @ [CHR 0x27] @ ''ver'' @ [CHR 0x27] @ [CHR 0x0A]
          @ ''must match exactly one schema in oneOf'' @ ''.'')
   \<and> sublist ''must match exactly one schema in oneOf''
        (''DGC validation failed:'' @ [CHR 0x0A]
          @ ''must have required property '' @ [CHR 0x27] @ ''ver'' @ [CHR 0x27] @ [CHR 0x0A]
          @ ''must have required property '' @ [CHR 0x27] @ ''ver'' @ [CHR 0x27] @ [CHR 0x0A]
          @ ''must have required property '' @ [CHR 0x27] @ ''ver'' @ [CHR 0x27] @ [CHR 0x0A]
          @ ''must match exactly one schema in oneOf'' @ ''.'')"
proof -
  have "ajv_validate (scenario july_2021 signer_store True) (JObject [])
      = Invalid (Some [missing_ver, missing_ver, missing_ver, no_match])"
    by (simp add: schema_check_empty empty_object_errors_def)
  note w = schema_validation_messages [OF extract_docB decode_cose_B decode_kid_scenario
      decode_claims_B this]
  have m: "message missing_ver
        = Some (''must have required property '' @ [CHR 0x27] @ ''ver'' @ [CHR 0x27])"
    "message no_match = Some ''must match exactly one schema in oneOf''"
    by (simp_all add: missing_ver_def no_match_def)
  from w show ?thesis
    unfolding Let_def by (simp add: m)
qed

section \<open>Structured decoding\<close>

lemma decode_claims_Map:
  assumes "decode_claims E cosePayload = Inr (cborData, body)"
  shows "\<exists>kvs. cborData = JMap kvs"
proof (cases cborData)
  case (JMap kvs)
  then show ?thesis by simp
qed (use assms in \<open>auto simp: decode_claims_def split: option.splits sum.splits\<close>)

lemma unverified_record_Map:
  "unverified_record E (JMap kvs) body k =
     Inr \<lparr>hcert = as_HCert E body, kid = k,
          issuer = or_null (case map_of kvs (JNum CWT_CLAIMS_ISSUER) of
                              Some x \<Rightarrow> x | None \<Rightarrow> JUndefined),
          issuedAt = or_null (case map_of kvs (JNum CWT_CLAIMS_ISSUED_AT) of
                                Some x \<Rightarrow> x | None \<Rightarrow> JUndefined),
          expiresAt = or_null (case map_of kvs (JNum CWT_CLAIMS_EXPIRATION) of
                                 Some x \<Rightarrow> x | None \<Rightarrow> JUndefined)\<rparr>"
  by (simp add: unverified_record_def)

lemma verifyDGCClaims_null:
  "expiresAt u = JNull \<Longrightarrow> verifyDGCClaims E u \<noteq> Inl (ExpiredDgcError x)"
  "issuedAt u = JNull \<Longrightarrow> verifyDGCClaims E u \<noteq> Inl (DgcIssuedInFutureError x)"
  by (simp_all add: verifyDGCClaims_def Let_def)

text \<open>
  C6. When the decoded claims map holds the number 0 under the expiration key 4 (or the
  issued-at key 6), the record that \<^verbatim>\<open>unsafeDGCFromCoseData\<close> returns holds \<^verbatim>\<open>null\<close> in
  \<^verbatim>\<open>expiresAt\<close> (or \<^verbatim>\<open>issuedAt\<close>), the same as when the key is missing, and at no time does
  \<^verbatim>\<open>verifyDGCClaims\<close> raise \<^verbatim>\<open>ExpiredDgcError\<close> (or \<^verbatim>\<open>DgcIssuedInFutureError\<close>) on that
  record.
\<close>

theorem zero_timestamp_becomes_null:
  assumes "decode_cose E rawCoseData = Inr (phdrsData, cosePayload)"
    and "decode_kid E phdrsData = Inr k"
    and "decode_claims E cosePayload = Inr (cborData, body)"
    and "ajv_validate E body = Valid"
  shows "\<exists>u. unsafeDGCFromCoseData E rawCoseData = Inr u
     \<and> (Map_get cborData (JNum CWT_CLAIMS_EXPIRATION) = Inr (JNum 0)
          \<longrightarrow> expiresAt u = JNull
            \<and> (\<forall>E' x. verifyDGCClaims E' u \<noteq> Inl (ExpiredDgcError x)))
     \<and> (Map_get cborData (JNum CWT_CLAIMS_ISSUED_AT) = Inr (JNum 0)
          \<longrightarrow> issuedAt u = JNull
            \<and> (\<forall>E' x. verifyDGCClaims E' u \<noteq> Inl (DgcIssuedInFutureError x)))
     \<and> (Map_get cborData (JNum CWT_CLAIMS_EXPIRATION) = Inr JUndefined
          \<longrightarrow> expiresAt u = JNull)
     \<and> (Map_get cborData (JNum CWT_CLAIMS_ISSUED_AT) = Inr JUndefined
          \<longrightarrow> issuedAt u = JNull)"
proof -
  from assms(3) obtain kvs where m: "cborData = JMap kvs"
    using decode_claims_Map by blast
  define u where "u = \<lparr>hcert = as_HCert E body, kid = k,
          issuer = or_null (case map_of kvs (JNum CWT_CLAIMS_ISSUER) of
                              Some x \<Rightarrow> x | None \<Rightarrow> JUndefined),
          issuedAt = or_null (case map_of kvs (JNum CWT_CLAIMS_ISSUED_AT) of
                                Some x \<Rightarrow> x | None \<Rightarrow> JUndefined),
          expiresAt = or_null (case map_of kvs (JNum CWT_CLAIMS_EXPIRATION) of
                                 Some x \<Rightarrow> x | None \<Rightarrow> JUndefined)\<rparr>"
  have r: "unsafeDGCFromCoseData E rawCoseData = Inr u"
    using assms by (simp add: unsafeDGCFromCoseData_def validate_hcert_def m
        unverified_record_Map u_def)
  have e: "expiresAt u = JNull"
    if "Map_get cborData (JNum CWT_CLAIMS_EXPIRATION) = Inr (JNum 0)
        \<or> Map_get cborData (JNum CWT_CLAIMS_EXPIRATION) = Inr JUndefined"
    using that by (auto simp: m u_def or_null_def)
  have i: "issuedAt u = JNull"
    if "Map_get cborData (JNum CWT_CLAIMS_ISSUED_AT) = Inr (JNum 0)
        \<or> Map_get cborData (JNum CWT_CLAIMS_ISSUED_AT) = Inr JUndefined"
    using that by (auto simp: m u_def or_null_def)
  from r e i verifyDGCClaims_null show ?thesis
    by blast
qed

text \<open>Document C expires at second 0, and in July 2021 its claims are accepted.\<close>

theorem zero_timestamp_becomes_null_witness:
  "unsafeDGCFromCoseData (scenario july_2021 signer_store True) (JBytes coseC_bytes) = Inr dgcC
   \<and> Map_get payloadC_value (JNum CWT_CLAIMS_EXPIRATION) = Inr (JNum 0)
   \<and> Map_get payloadC_value (JNum CWT_CLAIMS_ISSUED_AT) = Inr JUndefined
   \<and> unsafeDGCFromCoseData (scenario july_2021 signer_store True) (JBytes coseD_bytes) = Inr dgcC
   \<and> Map_get payloadD_value (JNum CWT_CLAIMS_ISSUED_AT) = Inr (JNum 0)
   \<and> Map_get payloadD_value (JNum CWT_CLAIMS_EXPIRATION) = Inr JUndefined
   \<and> expiresAt dgcC = JNull \<and> issuedAt dgcC = JNull
   \<and> verifyDGCClaims (scenario july_2021 signer_store True) dgcC = Inr ()"
proof -
  let ?S = "scenario july_2021 signer_store True"
  have c: "Map_get payloadC_value (JNum CWT_CLAIMS_EXPIRATION) = Inr (JNum 0)"
    "Map_get payloadC_value (JNum CWT_CLAIMS_ISSUED_AT) = Inr JUndefined"
    by (simp_all add: payloadC_value_def CWT_CLAIMS_EXPIRATION_def CWT_CLAIMS_ISSUED_AT_def)
  have d: "Map_get payloadD_value (JNum CWT_CLAIMS_ISSUED_AT) = Inr (JNum 0)"
    "Map_get payloadD_value (JNum CWT_CLAIMS_EXPIRATION) = Inr JUndefined"
    by (simp_all add: payloadD_value_def CWT_CLAIMS_EXPIRATION_def CWT_CLAIMS_ISSUED_AT_def)
  have ok: "ajv_validate ?S hcertA_json = Valid"
    by (simp add: schema_check_A)
  from zero_timestamp_becomes_null [OF decode_cose_C decode_kid_scenario decode_claims_C ok]
  have "expiresAt dgcC = JNull \<and> issuedAt dgcC = JNull"
    using c by (simp add: unsafe_C)
  moreover
  from zero_timestamp_becomes_null [OF decode_cose_D decode_kid_scenario decode_claims_D ok]
  have "\<forall>E' x. verifyDGCClaims E' dgcC \<noteq> Inl (DgcIssuedInFutureError x)"
    using d by (simp add: unsafe_D)
  moreover have "verifyDGCClaims ?S dgcC = Inr ()"
    by (simp add: verifyDGCClaims_def dgcC_def Let_def)
  ultimately show ?thesis
    using c d by (simp add: unsafe_C unsafe_D)
qed

lemma four_elements: "length xs = 4 \<Longrightarrow> \<exists>a b c d. xs = [a, b, c, d]"
  by (cases xs; simp; cases "tl xs"; simp; cases "tl (tl xs)"; simp;
      cases "tl (tl (tl xs))"; simp)

lemma decode_cose_shape:
  assumes "cbor_decodeFirst E rawCoseData = Some item"
    and "\<forall>a b c d. value_of item \<noteq> JArray [a, b, c, d]"
  shows "decode_cose E rawCoseData = Inl (Error ''Unexpected COSE data. DGC is probably invalid.'')"
proof (cases "value_of item")
  case (JArray xs)
  with assms(2) have "length xs \<noteq> 4"
    using four_elements by blast
  with JArray assms(1) show ?thesis
    by (simp add: decode_cose_def)
qed (use assms(1) in \<open>simp_all add: decode_cose_def\<close>)

lemma decode_kid_missing:
  assumes "cbor_decodeFirst E phdrsData = Some (JMap headers)" and "no_kid headers"
  shows "decode_kid E phdrsData
           = Inl (Error ''Cannot find a KID in COSE Data. DGC is probably invalid.'')"
  using assms by (auto simp: decode_kid_def no_kid_def split: option.splits)

lemma decode_kid_bytes:
  assumes "cbor_decodeFirst E phdrsData = Some (JMap headers)"
    and "map_of headers (JNum COSE_HEADERS_KID) = Some (JBytes bs)"
  shows "decode_kid E phdrsData = Inr (base64 bs)"
  using assms by (simp add: decode_kid_def Buffer_from_value_def)

lemma unsafeDGC_kid:
  assumes "unsafeDGCFromCoseData E rawCoseData = Inr u"
    and "decode_cose E rawCoseData = Inr (phdrsData, cosePayload)"
    and "decode_kid E phdrsData = Inr k"
  shows "kid u = k"
  using assms
  by (auto simp: unsafeDGCFromCoseData_def unverified_record_def
        split: sum.splits prod.splits)


text \<open>
  C8, as the code has it. \<^verbatim>\<open>unsafeDGCFromCoseData\<close> throws \<^verbatim>\<open>Unexpected COSE data\<close> whenever
  the \<^verbatim>\<open>value\<close> of the decoded top-level item is not an array of four elements; it
  throws \<^verbatim>\<open>Cannot find a KID in COSE Data\<close> whenever the protected headers decode to a
  map whose entry under key 4 is missing or falsy; and when that entry is a byte array,
  every record it returns has the base 64 text of these bytes as its \<^verbatim>\<open>kid\<close>, and it does
  return one when, in addition, the payload decodes to a claims map and the health
  certificate passes schema validation.
\<close>

theorem structured_decoding:
  "(cbor_decodeFirst E rawCoseData = Some item
      \<and> (\<forall>a b c d. value_of item \<noteq> JArray [a, b, c, d])
     \<longrightarrow> unsafeDGCFromCoseData E rawCoseData
           = Inl (Error ''Unexpected COSE data. DGC is probably invalid.''))
   \<and> (decode_cose E rawCoseData = Inr (phdrsData, cosePayload)
      \<and> cbor_decodeFirst E phdrsData = Some (JMap headers) \<and> no_kid headers
     \<longrightarrow> unsafeDGCFromCoseData E rawCoseData
           = Inl (Error ''Cannot find a KID in COSE Data. DGC is probably invalid.''))
   \<and> (decode_cose E rawCoseData = Inr (phdrsData, cosePayload)
      \<and> cbor_decodeFirst E phdrsData = Some (JMap headers)
      \<and> map_of headers (JNum COSE_HEADERS_KID) = Some (JBytes bs)
     \<longrightarrow> (\<forall>u. unsafeDGCFromCoseData E rawCoseData = Inr u \<longrightarrow> kid u = base64 bs)
       \<and> (\<forall>cborData body.
             decode_claims E cosePayload = Inr (cborData, body) \<and> ajv_validate E body = Valid
             \<longrightarrow> (\<exists>u. unsafeDGCFromCoseData E rawCoseData = Inr u \<and> kid u = base64 bs)))"
proof (intro conjI impI allI; (elim conjE)?)
  assume "cbor_decodeFirst E rawCoseData = Some item"
    and "\<forall>a b c d. value_of item \<noteq> JArray [a, b, c, d]"
  then show "unsafeDGCFromCoseData E rawCoseData
      = Inl (Error ''Unexpected COSE data. DGC is probably invalid.'')"
    by (simp add: unsafeDGCFromCoseData_def decode_cose_shape)
next
  assume "decode_cose E rawCoseData = Inr (phdrsData, cosePayload)"
    and "cbor_decodeFirst E phdrsData = Some (JMap headers)" and "no_kid headers"
  then show "unsafeDGCFromCoseData E rawCoseData
      = Inl (Error ''Cannot find a KID in COSE Data. DGC is probably invalid.'')"
    by (simp add: unsafeDGCFromCoseData_def decode_kid_missing)
next
  fix u
  assume "decode_cose E rawCoseData = Inr (phdrsData, cosePayload)"
    and "cbor_decodeFirst E phdrsData = Some (JMap headers)"
    and "map_of headers (JNum COSE_HEADERS_KID) = Some (JBytes bs)"
    and "unsafeDGCFromCoseData E rawCoseData = Inr u"
  then show "kid u = base64 bs"
    using unsafeDGC_kid decode_kid_bytes by blast
next
  fix cborData body
  assume c: "decode_cose E rawCoseData = Inr (phdrsData, cosePayload)"
    and h: "cbor_decodeFirst E phdrsData = Some (JMap headers)"
      "map_of headers (JNum COSE_HEADERS_KID) = Some (JBytes bs)"
    and p: "decode_claims E cosePayload = Inr (cborData, body)" "ajv_validate E body = Valid"
  from p(1) obtain kvs where "cborData = JMap kvs"
    using decode_claims_Map by blast
  with c p decode_kid_bytes [OF h]
  show "\<exists>u. unsafeDGCFromCoseData E rawCoseData = Inr u \<and> kid u = base64 bs"
    by (simp add: unsafeDGCFromCoseData_def validate_hcert_def unverified_record_Map)
qed

text \<open>Document U is rejected for its shape, document N for its missing key identifier, and
  document A gives a record with the key identifier in base 64.\<close>

theorem structured_decoding_witness:
  "unsafeDGCFromCoseData (scenario july_2021 signer_store True) (JBytes coseU_bytes)
     = Inl (Error ''Unexpected COSE data. DGC is probably invalid.'')
   \<and> unsafeDGCFromCoseData (scenario july_2021 signer_store True) (JBytes coseN_bytes)
     = Inl (Error ''Cannot find a KID in COSE Data. DGC is probably invalid.'')
   \<and> (\<exists>u. unsafeDGCFromCoseData (scenario july_2021 signer_store True) (JBytes coseA_bytes) = Inr u
         \<and> kid u = base64 [1, 2, 3, 4, 5, 6, 7, 8])"
proof -
  let ?S = "scenario july_2021 signer_store True"
  have "cbor_decodeFirst ?S (JBytes coseU_bytes) = Some (cose_array phdrs_bytes payloadA_bytes)
      \<and> (\<forall>a b c d. value_of (cose_array phdrs_bytes payloadA_bytes) \<noteq> JArray [a, b, c, d])"
    by (simp add: cbor_coseU cose_array_def)
  with structured_decoding [where E = "?S" and rawCoseData = "JBytes coseU_bytes"]
  have 1: "unsafeDGCFromCoseData ?S (JBytes coseU_bytes)
      = Inl (Error ''Unexpected COSE data. DGC is probably invalid.'')"
    by blast
  have "decode_cose ?S (JBytes coseN_bytes) = Inr (JBytes phdrsN_bytes, JBytes payloadB_bytes)
      \<and> cbor_decodeFirst ?S (JBytes phdrsN_bytes) = Some (JMap [(JNum 1, JNum (- 7))])
      \<and> no_kid [(JNum 1, JNum (- 7))]"
    by (simp add: decode_cose_N cbor_phdrsN phdrsN_value_def no_kid_def COSE_HEADERS_KID_def)
  with structured_decoding [where E = "?S" and rawCoseData = "JBytes coseN_bytes"]
  have 2: "unsafeDGCFromCoseData ?S (JBytes coseN_bytes)
      = Inl (Error ''Cannot find a KID in COSE Data. DGC is probably invalid.'')"
    by blast
  have "decode_cose ?S (JBytes coseA_bytes) = Inr (JBytes phdrs_bytes, JBytes payloadA_bytes)
      \<and> cbor_decodeFirst ?S (JBytes phdrs_bytes)
          = Some (JMap [(JNum 1, JNum (- 7)), (JNum 4, JBytes [1, 2, 3, 4, 5, 6, 7, 8])])
      \<and> map_of [(JNum 1, JNum (- 7)), (JNum 4, JBytes [1, 2, 3, 4, 5, 6, 7, 8])]
            (JNum COSE_HEADERS_KID) = Some (JBytes [1, 2, 3, 4, 5, 6, 7, 8])"
    and "decode_claims ?S (JBytes payloadA_bytes) = Inr (payloadA_value, hcertA_json)
      \<and> ajv_validate ?S hcertA_json = Valid"
    by (simp_all add: decode_cose_A cbor_phdrs phdrs_value_def COSE_HEADERS_KID_def
          decode_claims_A schema_check_A)
  with structured_decoding [where E = "?S" and rawCoseData = "JBytes coseA_bytes"]
  have 3: "\<exists>u. unsafeDGCFromCoseData ?S (JBytes coseA_bytes) = Inr u
      \<and> kid u = base64 [1, 2, 3, 4, 5, 6, 7, 8]"
    by blast
  from 1 2 3 show ?thesis
    by blast
qed

text \<open>The claim as it was stated fails twice. Document B decodes to a tagged array of
  four elements with a key identifier in its protected headers, and yet no record is
  produced: the schema validation in the same function rejects it. Document U decodes
  to exactly an array of four elements with a key identifier, and it is rejected for
  its shape, because the array is not inside a tagged item.\<close>

theorem structured_decoding_counterexample:
  "cbor_decodeFirst (scenario july_2021 signer_store True) (JBytes coseB_bytes)
     = Some (JTagged 18
         (JArray [JBytes phdrs_bytes, JObject [], JBytes payloadB_bytes, JBytes sig_bytes]))
   \<and> decode_kid (scenario july_2021 signer_store True) (JBytes phdrs_bytes)
     = Inr ''AQIDBAUGBwg=''
   \<and> unsafeDGCFromCoseData (scenario july_2021 signer_store True) (JBytes coseB_bytes)
     = Inl (Error (validation_failure (Some empty_object_errors)))
   \<and> cbor_decodeFirst (scenario july_2021 signer_store True) (JBytes coseU_bytes)
     = Some (JArray [JBytes phdrs_bytes, JObject [], JBytes payloadA_bytes, JBytes sig_bytes])
   \<and> unsafeDGCFromCoseData (scenario july_2021 signer_store True) (JBytes coseU_bytes)
     = Inl (Error ''Unexpected COSE data. DGC is probably invalid.'')"
proof -
  have "unsafeDGCFromCoseData (scenario july_2021 signer_store True) (JBytes coseU_bytes)
      = Inl (Error ''Unexpected COSE data. DGC is probably invalid.'')"
    by (simp add: unsafeDGCFromCoseData_def decode_cose_def cbor_coseU cose_array_def)
  then show ?thesis
    by (simp add: cbor_coseB cbor_coseU cose_array_def decode_kid_scenario unsafe_B)
qed

section \<open>The signer's certificate\<close>

lemma verifyDGCClaims_errors:
  "verifyDGCClaims E dgc \<noteq> Inl (InvalidCertificateError d)"
  "verifyDGCClaims E dgc \<noteq> Inl (UnknownKidError d)"
  by (simp_all add: verifyDGCClaims_def Let_def)

lemma getCertificateInfo_errors: "getCertificateInfo c \<noteq> Inl (InvalidCertificateError d)"
  by (simp add: getCertificateInfo_def Let_def split: option.splits)

lemma export_pem_scenario:
  "exportPublicKeyToPEM (scenario n s g) public_key
     = Inr (''-----BEGIN PUBLIC KEY-----'' @ newline @ ''MFkw'' @ newline
              @ ''-----END PUBLIC KEY-----'')"
  by (simp add: exportPublicKeyToPEM_def b64_digit_def b64_alphabet_def Let_def
        chunks64.simps [of "''MFkw''"] chunks64.simps [of "[]"])

lemma signer_found: "signer_store ''AQIDBAUGBwg='' = Some signer_pem"
  by (simp add: signer_store_def)

lemma claims_accepted_A: "verifyDGCClaims (scenario july_2021 s g) dgcA = Inr ()"
  by (simp add: verifyDGCClaims_def dgcA_def js_lt_def now_seconds_def july_2021_def Let_def)

lemma claims_expired_A:
  "verifyDGCClaims (scenario june_2023 s g) dgcA = Inl (ExpiredDgcError dgcA)"
  by (simp add: verifyDGCClaims_def dgcA_def js_lt_def now_seconds_def june_2023_def Let_def)

lemma claims_accepted_C: "verifyDGCClaims (scenario n s g) dgcC = Inr ()"
  by (simp add: verifyDGCClaims_def dgcC_def Let_def)

text \<open>
  C7, as the code has it. Let the key identifier of a record be a key of the trust store
  and let the certificate stored under it load (it parses, its public key and
  thumbprints export). Outside the validity window of that certificate
  \<^verbatim>\<open>findDGCPublicKey\<close> raises \<^verbatim>\<open>InvalidCertificateError\<close>; \<^verbatim>\<open>verifyDGC\<close> raises it when the
  claims of the record are accepted, and then \<^verbatim>\<open>parse\<close> raises it for the document of the
  record. Inside the window (bounds included) \<^verbatim>\<open>findDGCPublicKey\<close> returns the key, and
  neither \<^verbatim>\<open>verifyDGC\<close> nor \<^verbatim>\<open>parse\<close> raises \<^verbatim>\<open>InvalidCertificateError\<close>. So a document that
  passes the claims check fails with \<^verbatim>\<open>InvalidCertificateError\<close> exactly when the current
  time is outside the window; a document that fails the claims check fails with the
  error of that check, since \<^verbatim>\<open>verifyDGC\<close> checks the claims before it looks up the key.
\<close>

theorem certificate_validity_window:
  assumes "DCCCerts E (kid dgc) = Some pem"
    and "X509Certificate E (Pem pem) = Some x509cert"
    and "publicKey_export E x509cert = Some public_key"
    and "getThumbprint E x509cert = Some thumb"
    and "publicKey_getThumbprint E x509cert = Some key_thumb"
    and "exportPublicKeyToPEM E public_key = Inr key_pem"
  shows "(\<not> in_window (new_Date E) x509cert
           \<longrightarrow> findDGCPublicKey E dgc = Inl (InvalidCertificateError dgc)
             \<and> (verifyDGCClaims E dgc = Inr ()
                 \<longrightarrow> verifyDGC E dgc rawCoseData doc = Inl (InvalidCertificateError dgc)
                   \<and> (extractCoseFromQRCode E doc = Inr rawCoseData
                        \<and> unsafeDGCFromCoseData E rawCoseData = Inr dgc
                      \<longrightarrow> parse E doc = Inl (InvalidCertificateError dgc)))
             \<and> (\<forall>e. verifyDGCClaims E dgc = Inl e
                 \<longrightarrow> verifyDGC E dgc rawCoseData doc = Inl e
                   \<and> e \<noteq> InvalidCertificateError dgc))
       \<and> (in_window (new_Date E) x509cert
           \<longrightarrow> (\<exists>cert_data. findDGCPublicKey E dgc = Inr (cert_data, public_key))
             \<and> (\<forall>d. verifyDGC E dgc rawCoseData doc \<noteq> Inl (InvalidCertificateError d))
             \<and> (extractCoseFromQRCode E doc = Inr rawCoseData
                  \<and> unsafeDGCFromCoseData E rawCoseData = Inr dgc
                \<longrightarrow> (\<forall>d. parse E doc \<noteq> Inl (InvalidCertificateError d))))"
proof -
  have out: "findDGCPublicKey E dgc = Inl (InvalidCertificateError dgc)"
    if "\<not> in_window (new_Date E) x509cert"
    using that assms
    by (auto simp: findDGCPublicKey_def js_in_def js_index_def in_window_def Let_def)
  have inside: "\<exists>cert_data. findDGCPublicKey E dgc = Inr (cert_data, public_key)"
    if "in_window (new_Date E) x509cert"
    using that assms
    by (auto simp: findDGCPublicKey_def js_in_def js_index_def in_window_def Let_def)
  have v_out: "verifyDGC E dgc rawCoseData doc = Inl (InvalidCertificateError dgc)"
    if "\<not> in_window (new_Date E) x509cert" "verifyDGCClaims E dgc = Inr ()"
    using that out by (simp add: verifyDGC_def)
  have p: "parse E doc = (case verifyDGC E dgc rawCoseData doc of
                            Inl e \<Rightarrow> Inl e | Inr c \<Rightarrow> getCertificateInfo c)"
    if "extractCoseFromQRCode E doc = Inr rawCoseData"
      "unsafeDGCFromCoseData E rawCoseData = Inr dgc"
    using that by (simp add: parse_def)
  have p_out: "parse E doc = Inl (InvalidCertificateError dgc)"
    if "\<not> in_window (new_Date E) x509cert" "verifyDGCClaims E dgc = Inr ()"
      "extractCoseFromQRCode E doc = Inr rawCoseData"
      "unsafeDGCFromCoseData E rawCoseData = Inr dgc"
    using p [OF that(3,4)] v_out [OF that(1,2)] by simp
  have v_claims: "verifyDGC E dgc rawCoseData doc = Inl e \<and> e \<noteq> InvalidCertificateError dgc"
    if "verifyDGCClaims E dgc = Inl e" for e
    using that verifyDGCClaims_errors(1) [of E dgc dgc] by (auto simp: verifyDGC_def)
  have v_in: "verifyDGC E dgc rawCoseData doc \<noteq> Inl (InvalidCertificateError d)"
    if "in_window (new_Date E) x509cert" for d
    using inside [OF that] verifyDGCClaims_errors(1) [of E dgc d]
    by (auto simp: verifyDGC_def split: sum.splits)
  have p_in: "parse E doc \<noteq> Inl (InvalidCertificateError d)"
    if "in_window (new_Date E) x509cert"
      "extractCoseFromQRCode E doc = Inr rawCoseData"
      "unsafeDGCFromCoseData E rawCoseData = Inr dgc" for d
    using p [OF that(2,3)] v_in [OF that(1), of d] getCertificateInfo_errors
    by (auto split: sum.splits)
  from out inside v_out p_out v_claims v_in p_in show ?thesis
    by blast
qed

text \<open>The signer's certificate is valid from 2021-01-01 to 2023-01-01. Document C has no
  timestamps: in June 2023 its claims are accepted and \<^verbatim>\<open>parse\<close> raises
  \<^verbatim>\<open>InvalidCertificateError\<close>. For document A in July 2021 the lookup returns the key and
  \<^verbatim>\<open>parse\<close> does not raise that error.\<close>

theorem certificate_validity_window_witness:
  "findDGCPublicKey (scenario june_2023 signer_store True) dgcC
     = Inl (InvalidCertificateError dgcC)
   \<and> verifyDGC (scenario june_2023 signer_store True) dgcC (JBytes coseC_bytes) docC
     = Inl (InvalidCertificateError dgcC)
   \<and> parse (scenario june_2023 signer_store True) docC = Inl (InvalidCertificateError dgcC)
   \<and> (\<exists>cert_data. findDGCPublicKey (scenario july_2021 signer_store True) dgcA
         = Inr (cert_data, CryptoKey 1))
   \<and> (\<forall>d. verifyDGC (scenario july_2021 signer_store True) dgcA (JBytes coseA_bytes) docA
         \<noteq> Inl (InvalidCertificateError d))
   \<and> (\<forall>d. parse (scenario july_2021 signer_store True) docA \<noteq> Inl (InvalidCertificateError d))"
proof -
  have k: "kid dgcA = ''AQIDBAUGBwg=''" "kid dgcC = ''AQIDBAUGBwg=''"
    by (simp_all add: dgcA_def dgcC_def)
  have w: "\<not> in_window june_2023 signer_x509" "in_window july_2021 signer_x509"
    by (simp_all add: in_window_def signer_x509_def june_2023_def july_2021_def)
  have "findDGCPublicKey (scenario june_2023 signer_store True) dgcC
      = Inl (InvalidCertificateError dgcC)
    \<and> verifyDGC (scenario june_2023 signer_store True) dgcC (JBytes coseC_bytes) docC
      = Inl (InvalidCertificateError dgcC)
    \<and> parse (scenario june_2023 signer_store True) docC = Inl (InvalidCertificateError dgcC)"
    using w(1) claims_accepted_C [of june_2023 signer_store True]
      extract_docC [of june_2023 signer_store True] unsafe_C [of june_2023 signer_store True]
      certificate_validity_window [where E = "scenario june_2023 signer_store True"
        and dgc = dgcC and pem = signer_pem and ?x509cert = signer_x509
        and public_key = "CryptoKey 1" and thumb = "[0xAB, 0xCD]" and key_thumb = "[0x12, 0x34]"
        and rawCoseData = "JBytes coseC_bytes" and doc = docC,
        OF _ _ _ _ _ export_pem_scenario]
    by (simp add: k signer_found)
  moreover have "(\<exists>cert_data. findDGCPublicKey (scenario july_2021 signer_store True) dgcA
        = Inr (cert_data, CryptoKey 1))
      \<and> (\<forall>d. verifyDGC (scenario july_2021 signer_store True) dgcA (JBytes coseA_bytes) docA
        \<noteq> Inl (InvalidCertificateError d))
      \<and> (\<forall>d. parse (scenario july_2021 signer_store True) docA
        \<noteq> Inl (InvalidCertificateError d))"
    using w(2) extract_docA [of july_2021 signer_store True]
      unsafe_A [of july_2021 signer_store True]
      certificate_validity_window [where E = "scenario july_2021 signer_store True"
        and dgc = dgcA and pem = signer_pem and ?x509cert = signer_x509
        and public_key = "CryptoKey 1" and thumb = "[0xAB, 0xCD]" and key_thumb = "[0x12, 0x34]"
        and rawCoseData = "JBytes coseA_bytes" and doc = docA,
        OF _ _ _ _ _ export_pem_scenario]
    by (simp add: k signer_found)
  ultimately show ?thesis
    by blast
qed

text \<open>The claim as it was stated fails on document A in June 2023: its key identifier is
  in the trust store, the current time is outside the validity window of the signer's
  certificate, and the document has expired; the error of \<^verbatim>\<open>verifyDGC\<close> and of \<^verbatim>\<open>parse\<close> is
  \<^verbatim>\<open>ExpiredDgcError\<close>, not \<^verbatim>\<open>InvalidCertificateError\<close>.\<close>

theorem certificate_validity_window_counterexample:
  "DCCCerts (scenario june_2023 signer_store True) (kid dgcA) = Some signer_pem
   \<and> X509Certificate (scenario june_2023 signer_store True) (Pem signer_pem) = Some signer_x509
   \<and> \<not> in_window (new_Date (scenario june_2023 signer_store True)) signer_x509
   \<and> findDGCPublicKey (scenario june_2023 signer_store True) dgcA
       = Inl (InvalidCertificateError dgcA)
   \<and> unsafeDGCFromCoseData (scenario june_2023 signer_store True) (JBytes coseA_bytes)
       = Inr dgcA
   \<and> verifyDGC (scenario june_2023 signer_store True) dgcA (JBytes coseA_bytes) docA
       = Inl (ExpiredDgcError dgcA)
   \<and> parse (scenario june_2023 signer_store True) docA = Inl (ExpiredDgcError dgcA)
   \<and> parse (scenario june_2023 signer_store True) docA \<noteq> Inl (InvalidCertificateError dgcA)"
proof -
  let ?S = "scenario june_2023 signer_store True"
  have "DCCCerts ?S (kid dgcA) = Some signer_pem"
    by (simp add: dgcA_def signer_found)
  moreover have "X509Certificate ?S (Pem signer_pem) = Some signer_x509"
    by simp
  moreover have "\<not> in_window (new_Date ?S) signer_x509"
    by (simp add: in_window_def signer_x509_def june_2023_def)
  moreover have "findDGCPublicKey ?S dgcA = Inl (InvalidCertificateError dgcA)"
    by (simp add: findDGCPublicKey_def js_in_def js_index_def dgcA_def signer_found
          export_pem_scenario signer_x509_def june_2023_def Let_def)
  moreover have "verifyDGC ?S dgcA (JBytes coseA_bytes) docA = Inl (ExpiredDgcError dgcA)"
    by (simp add: verifyDGC_def claims_expired_A)
  moreover from this have "parse ?S docA = Inl (ExpiredDgcError dgcA)"
    by (simp add: parse_def extract_docA unsafe_A)
  ultimately show ?thesis
    by (simp add: unsafe_A)
qed

section \<open>Normalisation\<close>

text \<open>
  C3, as the code has it. \<^verbatim>\<open>getCertificateInfo\<close> looks at the three lists in the order
  vaccination, test, recovery, and reads the first entry of the first list that is
  populated, whatever the later lists hold: a populated vaccination list gives the type
  \<^verbatim>\<open>vaccination\<close> with the date, the agent and the two dose counts of its first entry;
  otherwise a populated test list gives the type \<^verbatim>\<open>test\<close> with the sample date of its
  first entry, negative exactly when the result of that entry is \<^verbatim>\<open>260415000\<close>; otherwise
  a populated recovery list gives the type \<^verbatim>\<open>test\<close> again, with the date of the first
  recovery entry and \<^verbatim>\<open>is_negative = false\<close>; and when none is populated it throws the
  error \<^verbatim>\<open>Unsupported or empty certificate\<close>. There is no type \<^verbatim>\<open>recovery\<close>.
\<close>

theorem certificate_type:
  "(let h = hcert c; result = getCertificateInfo c
    in (\<forall>e es. v h = Some (e # es) \<longrightarrow>
          (\<exists>info. result = Inr info \<and> cert_type info = ''vaccination''
             \<and> details info = VaccinationDetails (Date (dt e)) (vp e) (dn e) (sd e)))
     \<and> (\<forall>e es. \<not> populated (v h) \<and> t h = Some (e # es) \<longrightarrow>
          (\<exists>info. result = Inr info \<and> cert_type info = ''test''
             \<and> details info = TestDetails (Date (sc e)) (tr e = ''260415000'')))
     \<and> (\<forall>e es. \<not> populated (v h) \<and> \<not> populated (t h) \<and> r h = Some (e # es) \<longrightarrow>
          (\<exists>info. result = Inr info \<and> cert_type info = ''test''
             \<and> details info = TestDetails (Date (fr e)) False))
     \<and> (\<not> populated (v h) \<and> \<not> populated (t h) \<and> \<not> populated (r h) \<longrightarrow>
          result = Inl (ErrorWithJSON ''Unsupported or empty certificate: '' c)))"
  unfolding Let_def
  by (auto simp: getCertificateInfo_def Let_def first_entry_def populated_def
        split: option.splits list.splits)

text \<open>A body with all three lists populated is a vaccination; a body with a negative test
  and a recovery is that negative test; a body with a recovery alone is a positive test;
  a body with no entry is refused.\<close>

theorem certificate_type_witness:
  "(\<exists>info. getCertificateInfo (verified mixed_hcert) = Inr info
      \<and> cert_type info = ''vaccination''
      \<and> details info = VaccinationDetails (Date ''2021-06-01'') ''1119349007'' 2 2)
   \<and> (\<exists>info. getCertificateInfo (verified test_hcert) = Inr info
      \<and> cert_type info = ''test''
      \<and> details info = TestDetails (Date ''2021-06-30T08:00:00Z'') True)
   \<and> populated (r (hcert (verified test_hcert)))
   \<and> (\<exists>info. getCertificateInfo (verified recovery_hcert) = Inr info
      \<and> cert_type info = ''test''
      \<and> details info = TestDetails (Date ''2021-03-01'') False)
   \<and> getCertificateInfo (verified unsupported_hcert)
     = Inl (ErrorWithJSON ''Unsupported or empty certificate: '' (verified unsupported_hcert))"
proof -
  have 1: "v (hcert (verified mixed_hcert))
      = Some [\<lparr>dt = ''2021-06-01'', vp = ''1119349007'', dn = 2, sd = 2\<rparr>]"
    by (simp add: verified_def mixed_hcert_def test_hcert_def recovery_hcert_def hcertA_def)
  have 2: "\<not> populated (v (hcert (verified test_hcert)))"
    "t (hcert (verified test_hcert)) = Some [\<lparr>sc = ''2021-06-30T08:00:00Z'', tr = ''260415000''\<rparr>]"
    "populated (r (hcert (verified test_hcert)))"
    by (simp_all add: verified_def test_hcert_def recovery_hcert_def populated_def)
  have 3: "\<not> populated (v (hcert (verified recovery_hcert)))"
    "\<not> populated (t (hcert (verified recovery_hcert)))"
    "r (hcert (verified recovery_hcert)) = Some [\<lparr>fr = ''2021-03-01''\<rparr>]"
    by (simp_all add: verified_def recovery_hcert_def populated_def)
  have 4: "\<not> populated (v (hcert (verified unsupported_hcert)))"
    "\<not> populated (t (hcert (verified unsupported_hcert)))"
    "\<not> populated (r (hcert (verified unsupported_hcert)))"
    by (simp_all add: verified_def unsupported_hcert_def recovery_hcert_def populated_def)
  from certificate_type [where c = "verified mixed_hcert"] 1
  have a: "\<exists>info. getCertificateInfo (verified mixed_hcert) = Inr info
      \<and> cert_type info = ''vaccination''
      \<and> details info = VaccinationDetails (Date ''2021-06-01'') ''1119349007'' 2 2"
    unfolding Let_def by fastforce
  from certificate_type [where c = "verified test_hcert"] 2
  have b: "\<exists>info. getCertificateInfo (verified test_hcert) = Inr info
      \<and> cert_type info = ''test''
      \<and> details info = TestDetails (Date ''2021-06-30T08:00:00Z'') True"
    unfolding Let_def by fastforce
  from certificate_type [where c = "verified recovery_hcert"] 3
  have c: "\<exists>info. getCertificateInfo (verified recovery_hcert) = Inr info
      \<and> cert_type info = ''test''
      \<and> details info = TestDetails (Date ''2021-03-01'') False"
    unfolding Let_def by fastforce
  from certificate_type [where c = "verified unsupported_hcert"] 4
  have d: "getCertificateInfo (verified unsupported_hcert)
     = Inl (ErrorWithJSON ''Unsupported or empty certificate: '' (verified unsupported_hcert))"
    unfolding Let_def by blast
  from a b 2(3) c d show ?thesis
    by blast
qed

text \<open>The claim as it was stated fails on a body whose only populated list is the
  recovery list: the type of the result is \<^verbatim>\<open>test\<close>, not \<^verbatim>\<open>recovery\<close>.\<close>

theorem certificate_type_counterexample:
  "populated (r (hcert (verified recovery_hcert)))
   \<and> \<not> populated (v (hcert (verified recovery_hcert)))
   \<and> \<not> populated (t (hcert (verified recovery_hcert)))
   \<and> map_sum id cert_type (getCertificateInfo (verified recovery_hcert)) = Inr ''test''
   \<and> map_sum id cert_type (getCertificateInfo (verified recovery_hcert)) \<noteq> Inr ''recovery''"
  by (simp add: getCertificateInfo_def verified_def recovery_hcert_def populated_def
        first_entry_def Let_def)




section \<open>The order of the stages\<close>

lemma kid_not_inherited: "''AQIDBAUGBwg='' \<notin> set Object_prototype_keys"
  by (simp add: Object_prototype_keys_def)

text \<open>
  C1, as the code has it. A document that passes transport decoding, structured decoding
  with schema validation, and claims validation, and whose key identifier is neither a
  key of the trust store nor the name of a member of \<^verbatim>\<open>Object.prototype\<close>, fails with
  \<^verbatim>\<open>UnknownKidError\<close>, whatever its signature and the content of its health certificate
  are.
\<close>

theorem unknown_signer:
  assumes "extractCoseFromQRCode E doc = Inr rawCoseData"
    and "unsafeDGCFromCoseData E rawCoseData = Inr dgc"
    and "verifyDGCClaims E dgc = Inr ()"
    and "DCCCerts E (kid dgc) = None"
    and "kid dgc \<notin> set Object_prototype_keys"
  shows "findDGCPublicKey E dgc = Inl (UnknownKidError dgc)
       \<and> verifyDGC E dgc rawCoseData doc = Inl (UnknownKidError dgc)
       \<and> parse E doc = Inl (UnknownKidError dgc)"
  using assms by (simp add: parse_def verifyDGC_def findDGCPublicKey_def js_in_def)

text \<open>Document A in July 2021, with an empty trust store and a signature that does not
  verify.\<close>

theorem unknown_signer_witness:
  "parse (scenario july_2021 empty_store False) docA = Inl (UnknownKidError dgcA)"
proof -
  have "DCCCerts (scenario july_2021 empty_store False) (kid dgcA) = None"
    and "kid dgcA \<notin> set Object_prototype_keys"
    by (simp_all add: empty_store_def dgcA_def kid_not_inherited)
  with unknown_signer [OF extract_docA unsafe_A claims_accepted_A] show ?thesis
    by blast
qed

text \<open>The claim as it was stated fails on document A in June 2023 with an empty trust
  store: the key identifier is unknown and the document has expired, and the error is
  \<^verbatim>\<open>ExpiredDgcError\<close>.\<close>

theorem unknown_signer_counterexample:
  "DCCCerts (scenario june_2023 empty_store True) (kid dgcA) = None
   \<and> unsafeDGCFromCoseData (scenario june_2023 empty_store True) (JBytes coseA_bytes) = Inr dgcA
   \<and> parse (scenario june_2023 empty_store True) docA = Inl (ExpiredDgcError dgcA)
   \<and> parse (scenario june_2023 empty_store True) docA \<noteq> Inl (UnknownKidError dgcA)"
  by (simp add: parse_def extract_docA unsafe_A verifyDGC_def claims_expired_A empty_store_def)

text \<open>The name of a member of \<^verbatim>\<open>Object.prototype\<close> is never an unknown key identifier,
  whatever the trust store holds; \<^verbatim>\<open>toString\<close> is the base 64 text of six bytes.\<close>

lemma exportPublicKeyToPEM_errors: "exportPublicKeyToPEM E pk \<noteq> Inl (UnknownKidError d)"
  by (simp add: exportPublicKeyToPEM_def Let_def split: option.splits)

lemma inherited_kid_is_known:
  "kid dgc \<in> set Object_prototype_keys \<Longrightarrow> findDGCPublicKey E dgc \<noteq> Inl (UnknownKidError d)"
  using exportPublicKeyToPEM_errors
  by (auto simp: findDGCPublicKey_def js_in_def Let_def split: option.splits sum.splits)

lemma base64_toString: "base64 [0xB6, 0x84, 0xAD, 0xAE, 0x29, 0xE0] = ''toString''"
  by (simp add: b64_digit_def b64_alphabet_def Let_def)

text \<open>
  C2, as the code has it. \<^verbatim>\<open>parse\<close> runs its stages in the order of \<open>code_order_parse\<close>:
  transport decoding, decoding of the COSE envelope, key identifier, decoding of the
  claims map, schema validation, construction of the record, claims validation (issued-at
  before expiration), trust store lookup with the validity window of the certificate,
  signature verification, normalisation; the error of the first stage that fails in
  this order is the error of \<^verbatim>\<open>parse\<close>.
\<close>

theorem parse_order: "parse E doc = code_order_parse E doc"
  by (simp add: parse_def code_order_parse_def unsafeDGCFromCoseData_def verifyDGC_def
        split: sum.splits prod.splits)

lemma find_signer:
  "kid d = ''AQIDBAUGBwg='' \<Longrightarrow>
     findDGCPublicKey (scenario july_2021 signer_store g) d = Inr (signer_DSC, CryptoKey 1)"
  by (simp add: findDGCPublicKey_def js_in_def js_index_def signer_found export_pem_scenario
        signer_x509_def signer_DSC_def july_2021_def hex_def hex_digit_def
        b64_digit_def b64_alphabet_def Let_def)

text \<open>Document B, with its signer in the trust store and a signature that does not
  verify, fails at schema validation.\<close>

theorem parse_order_witness:
  "code_order_parse (scenario july_2021 signer_store False) docB
     = Inl (Error (validation_failure (Some empty_object_errors)))"
proof -
  have "parse (scenario july_2021 signer_store False) docB
      = Inl (Error (validation_failure (Some empty_object_errors)))"
    by (simp add: parse_def extract_docB unsafe_B)
  then show ?thesis
    using parse_order [of "scenario july_2021 signer_store False" docB] by simp
qed

text \<open>The claim as it was stated fails on the same run: in the order of the
  specification the signature, which is checked before the schema, would be the first
  stage to fail.\<close>

theorem parse_order_counterexample:
  "parse (scenario july_2021 signer_store False) docB
     = Inl (Error (validation_failure (Some empty_object_errors)))
   \<and> spec_order_parse (scenario july_2021 signer_store False) docB = Inl (Thrown Cosette)"
proof -
  let ?S = "scenario july_2021 signer_store False"
  have 1: "parse ?S docB = Inl (Error (validation_failure (Some empty_object_errors)))"
    by (simp add: parse_def extract_docB unsafe_B)
  obtain d where d: "unverified_record ?S payloadB_value (JObject []) ''AQIDBAUGBwg='' = Inr d"
    and k: "kid d = ''AQIDBAUGBwg=''"
    by (simp add: unverified_record_def payloadB_value_def)
  have "spec_order_parse ?S docB = Inl (Thrown Cosette)"
    by (simp add: spec_order_parse_def extract_docB decode_cose_B decode_claims_B
          decode_kid_scenario d find_signer [OF k])
  with 1 show ?thesis
    by blast
qed

end
